theory Spec2Isabelle
  imports Complex_Main "HOL-Library.Sublist"
begin

section \<open>JavaScript values\<close>

text \<open>
  The component (\<open>src/App.tsx\<close>) handles values produced by \<open>JSON.parse\<close>, which are
  untyped at run time: the TypeScript annotations do not constrain \<open>msg\<close>, \<open>args\<close> or
  \<open>data\<close>. A number is the value of a double; \<open>JSON.parse\<close> yields no NaN, and an
  overflowing literal yields an infinity. An object is the list of its own properties.
\<close>

datatype jsnum = Finite rat | PosInfinity | NegInfinity

datatype jsval =
    JUndefined
  | JNull
  | JBool bool
  | JNum jsnum
  | JStr string
  | JArr "jsval list"
  | JObj "(string \<times> jsval) list"

datatype error =
    SyntaxError
  | TypeError
  | Error string
  | DOMException string

text \<open>Truthiness (\<open>ToBoolean\<close>) as used by \<open>&&\<close>, \<open>||\<close> and \<open>if\<close>.\<close>

fun truthy :: "jsval \<Rightarrow> bool" where
  "truthy JUndefined = False"
| "truthy JNull = False"
| "truthy (JBool b) = b"
| "truthy (JNum (Finite r)) = (r \<noteq> 0)"
| "truthy (JNum PosInfinity) = True"
| "truthy (JNum NegInfinity) = True"
| "truthy (JStr s) = (s \<noteq> [])"
| "truthy (JArr xs) = True"
| "truthy (JObj kvs) = True"

fun nullish :: "jsval \<Rightarrow> bool" where
  "nullish JUndefined = True"
| "nullish JNull = True"
| "nullish v = False"

text \<open>
  \<open>field v k\<close> is \<open>v.k\<close> on a value that is neither \<open>null\<close> nor \<open>undefined\<close>, for the
  property names this program reads (\<open>type\<close>, \<open>transcript\<close>, \<open>arguments\<close>, \<open>name\<close>,
  \<open>call_id\<close>, \<open>response\<close>, \<open>output\<close>, \<open>content\<close>, \<open>effect\<close>, \<open>error\<close>, \<open>client_secret\<close>,
  \<open>value\<close>): none of them is inherited from a prototype, so only an object's own
  properties answer. \<open>index0 v\<close> is \<open>v[0]\<close> on such a value.
\<close>

fun field :: "jsval \<Rightarrow> string \<Rightarrow> jsval" where
  "field (JObj kvs) k = (case map_of kvs k of None \<Rightarrow> JUndefined | Some v \<Rightarrow> v)"
| "field v k = JUndefined"

fun index0 :: "jsval \<Rightarrow> jsval" where
  "index0 (JArr xs) = (case xs of [] \<Rightarrow> JUndefined | x # _ \<Rightarrow> x)"
| "index0 (JStr s) = (case s of [] \<Rightarrow> JUndefined | ch # _ \<Rightarrow> JStr [ch])"
| "index0 (JObj kvs) = (case map_of kvs ''0'' of None \<Rightarrow> JUndefined | Some v \<Rightarrow> v)"
| "index0 v = JUndefined"

text \<open>\<open>v.k\<close>: reading a property of \<open>null\<close> or \<open>undefined\<close> throws a TypeError.\<close>

definition get :: "jsval \<Rightarrow> string \<Rightarrow> error + jsval" where
  "get v k = (if nullish v then Inl TypeError else Inr (field v k))"

text \<open>\<open>v?.k\<close> and \<open>v?.[0]\<close>: \<open>undefined\<close> on \<open>null\<close> or \<open>undefined\<close>.\<close>

definition opt_field :: "jsval \<Rightarrow> string \<Rightarrow> jsval" where
  "opt_field v k = (if nullish v then JUndefined else field v k)"

definition opt_index0 :: "jsval \<Rightarrow> jsval" where
  "opt_index0 v = (if nullish v then JUndefined else index0 v)"

subsection \<open>Built-ins of the JavaScript engine\<close>

text \<open>
  The engine's functions that the component calls are parameters of the model.
  \<open>JSON_parse\<close> throws a SyntaxError on a text that is not JSON. \<open>ToString\<close> is the
  conversion applied by a template literal and by \<open>JSON.parse\<close> to its argument; it
  can throw (an object with an own \<open>toString\<close> property that is not callable).
  \<open>JSON_stringify\<close> is applied to object literals only and returns a string.
\<close>

record platform =
  JSON_parse :: "string \<Rightarrow> error + jsval"
  JSON_stringify :: "jsval \<Rightarrow> string"
  ToString :: "jsval \<Rightarrow> error + string"

section \<open>The component\<close>

definition CONVERSATION_DURATION :: int where
  "CONVERSATION_DURATION = 60"

datatype AIState = idle | connecting | listening | thinking | speaking

type_synonym handle = nat

text \<open>
  The five state variables and the four refs of \<open>App\<close>. \<open>imageEffect\<close> is declared as
  one of four strings, but \<open>setImageEffect(args.effect)\<close> stores whatever the parsed
  arguments hold.
\<close>

record component =
  aiState :: AIState
  timeRemaining :: int
  isActive :: bool
  transcript :: "string list"
  imageEffect :: jsval
  pcRef :: "handle option"
  dataChannelRef :: "handle option"
  audioElementRef :: "handle option"
  timerRef :: "handle option"

definition initial :: component where
  "initial = \<lparr> aiState = idle, timeRemaining = CONVERSATION_DURATION, isActive = False,
               transcript = [], imageEffect = JStr ''none'',
               pcRef = None, dataChannelRef = None, audioElementRef = None,
               timerRef = None \<rparr>"

text \<open>
  What a handler does, in the order it does it: calls of the state setters, assignments
  to refs, and calls into the browser. \<open>AppendTranscript p v\<close> is
  \<open>setTranscript(prev => [...prev, `p${v}`])\<close>. \<open>SetTimeout\<close> and \<open>SetInterval\<close> carry
  the delay in milliseconds; the handle that \<open>setInterval\<close> returns is the one then
  stored in \<open>timerRef\<close>. A handle is an object or a timer id of the browser and is never
  falsy. \<open>Send s\<close> is \<open>dc.send(s)\<close>: it is called only in the \<open>open\<close> and \<open>message\<close>
  handlers of the channel, which the browser runs while the channel is open, where
  \<open>send\<close> does not throw.
\<close>

datatype effect =
    SetAIState AIState
  | SetIsActive bool
  | SetTimeRemaining int
  | SetTranscript "string list"
  | AppendTranscript string jsval
  | SetImageEffect jsval
  | SetPcRef "handle option"
  | SetDataChannelRef "handle option"
  | SetAudioElementRef "handle option"
  | SetTimerRef "handle option"
  | SetTimeout nat
  | SetInterval nat
  | Send string
  | ClosePeerConnection handle
  | CloseDataChannel handle
  | ClearSrcObject handle
  | ClearInterval handle
  | ConsoleLog jsval
  | ConsoleLogText string
  | ConsoleError error

text \<open>
  The effect of one call on the component. The updater of \<open>AppendTranscript\<close> is run by
  React, outside the handler that passed it: when its template literal throws, the
  update throws there (\<open>Inl\<close>) and there is no next state of the component.
\<close>

fun perform :: "platform \<Rightarrow> effect \<Rightarrow> component \<Rightarrow> error + component" where
  "perform P (SetAIState a) c = Inr (c\<lparr>aiState := a\<rparr>)"
| "perform P (SetIsActive b) c = Inr (c\<lparr>isActive := b\<rparr>)"
| "perform P (SetTimeRemaining n) c = Inr (c\<lparr>timeRemaining := n\<rparr>)"
| "perform P (SetTranscript ls) c = Inr (c\<lparr>transcript := ls\<rparr>)"
| "perform P (AppendTranscript p v) c =
     (case ToString P v of
        Inl err \<Rightarrow> Inl err
      | Inr s \<Rightarrow> Inr (c\<lparr>transcript := transcript c @ [p @ s]\<rparr>))"
| "perform P (SetImageEffect v) c = Inr (c\<lparr>imageEffect := v\<rparr>)"
| "perform P (SetPcRef h) c = Inr (c\<lparr>pcRef := h\<rparr>)"
| "perform P (SetDataChannelRef h) c = Inr (c\<lparr>dataChannelRef := h\<rparr>)"
| "perform P (SetAudioElementRef h) c = Inr (c\<lparr>audioElementRef := h\<rparr>)"
| "perform P (SetTimerRef h) c = Inr (c\<lparr>timerRef := h\<rparr>)"
| "perform P e c = Inr c"

fun perform_all :: "platform \<Rightarrow> effect list \<Rightarrow> component \<Rightarrow> error + component" where
  "perform_all P [] c = Inr c"
| "perform_all P (e # es) c =
     (case perform P e c of Inl err \<Rightarrow> Inl err | Inr c' \<Rightarrow> perform_all P es c')"

text \<open>The strings passed to \<open>dc.send\<close>, in order.\<close>

fun sent :: "effect list \<Rightarrow> string list" where
  "sent [] = []"
| "sent (Send s # es) = s # sent es"
| "sent (e # es) = sent es"

text \<open>Console output is diagnostic; everything else counts as a side effect.\<close>

fun is_console :: "effect \<Rightarrow> bool" where
  "is_console (ConsoleLog v) = True"
| "is_console (ConsoleLogText s) = True"
| "is_console (ConsoleError err) = True"
| "is_console e = False"

definition side_effects :: "effect list \<Rightarrow> effect list" where
  "side_effects es = filter (\<lambda>e. \<not> is_console e) es"

subsection \<open>The inbound message handler, \<open>dc.onmessage\<close>\<close>

text \<open>
  The acknowledgment of a tool call, \<open>functionOutput\<close>, and the request for the next
  response. \<open>msg\<close> is the parsed message and \<open>eff\<close> is \<open>args.effect\<close>.
\<close>

definition functionOutput :: "platform \<Rightarrow> jsval \<Rightarrow> jsval \<Rightarrow> jsval" where
  "functionOutput P msg eff =
     JObj [(''type'', JStr ''conversation.item.create''),
           (''item'',
            JObj [(''type'', JStr ''function_call_output''),
                  (''call_id'', field msg ''call_id''),
                  (''output'',
                   JStr (JSON_stringify P
                           (JObj [(''success'', JBool True), (''effect'', eff)])))])]"

definition response_create :: jsval where
  "response_create = JObj [(''type'', JStr ''response.create'')]"

text \<open>
  The branch for \<open>response.function_call_arguments.done\<close>. \<open>args.effect\<close> is read in
  the condition of the \<open>if\<close> (only when the name matches) and again for
  \<open>functionOutput\<close>; each read throws when \<open>args\<close> is \<open>null\<close>.
\<close>

definition function_call_done :: "platform \<Rightarrow> jsval \<Rightarrow> effect list \<times> error option" where
  "function_call_done P msg =
     (case ToString P (field msg ''arguments'') of
        Inl err \<Rightarrow> ([], Some err)
      | Inr text \<Rightarrow>
     (case JSON_parse P text of
        Inl err \<Rightarrow> ([], Some err)
      | Inr args \<Rightarrow>
     (case (if field msg ''name'' = JStr ''add_effect_to_image''
            then (case get args ''effect'' of
                    Inl err \<Rightarrow> Inl err
                  | Inr eff \<Rightarrow>
                      Inr (if truthy eff then [SetImageEffect eff, SetTimeout 2000] else []))
            else Inr []) of
        Inl err \<Rightarrow> ([], Some err)
      | Inr es \<Rightarrow>
     (case get args ''effect'' of
        Inl err \<Rightarrow> (es, Some err)
      | Inr eff \<Rightarrow>
          (es @ [Send (JSON_stringify P (functionOutput P msg eff)),
                 Send (JSON_stringify P response_create)],
           None)))))"

text \<open>
  The branch for \<open>response.done\<close>:
  \<open>msg.response?.output?.[0]?.content?.[0]?.transcript\<close>, appended when truthy.
\<close>

definition response_done :: "jsval \<Rightarrow> effect list" where
  "response_done msg =
     (let transcript =
            opt_field (opt_index0 (opt_field (opt_index0 (opt_field (field msg ''response'')
              ''output'')) ''content'')) ''transcript''
      in if truthy transcript then [AppendTranscript ''AI: '' transcript] else [])"

text \<open>
  The body of the \<open>try\<close> block: the effects performed, and the exception that ended it,
  if any. \<open>msg.type\<close> is the only property read that can throw on \<open>msg\<close>; once it has
  succeeded \<open>msg\<close> is neither \<open>null\<close> nor \<open>undefined\<close>, and its other properties are
  read with \<open>field\<close>.
\<close>

definition onmessage_try :: "platform \<Rightarrow> string \<Rightarrow> effect list \<times> error option" where
  "onmessage_try P data =
     (case JSON_parse P data of
        Inl err \<Rightarrow> ([], Some err)
      | Inr msg \<Rightarrow>
     (case get msg ''type'' of
        Inl err \<Rightarrow> ([], Some err)
      | Inr ty \<Rightarrow>
          if ty = JStr ''session.created'' then
            ([ConsoleLog ty, SetAIState listening], None)
          else if ty = JStr ''response.audio.delta'' then
            ([ConsoleLog ty, SetAIState speaking], None)
          else if ty = JStr ''response.audio.done'' then
            ([ConsoleLog ty, SetAIState listening], None)
          else if ty = JStr ''input_audio_buffer.speech_started'' then
            ([ConsoleLog ty, SetAIState listening], None)
          else if ty = JStr ''conversation.item.input_audio_transcription.completed'' then
            ([ConsoleLog ty, AppendTranscript ''You: '' (field msg ''transcript'')], None)
          else if ty = JStr ''response.function_call_arguments.done'' then
            (case function_call_done P msg of (es, r) \<Rightarrow> (ConsoleLog ty # es, r))
          else if ty = JStr ''response.done'' then
            (ConsoleLog ty # response_done msg, None)
          else ([ConsoleLog ty], None)))"

text \<open>
  The handler: the \<open>catch\<close> clause logs the exception and ends normally. The second
  component is the exception that leaves the handler.
\<close>

definition onmessage :: "platform \<Rightarrow> string \<Rightarrow> effect list \<times> error option" where
  "onmessage P data =
     (case onmessage_try P data of
        (es, None) \<Rightarrow> (es, None)
      | (es, Some err) \<Rightarrow> (es @ [ConsoleError err], None))"

text \<open>The strings that the handler compares \<open>msg.type\<close> with, in the order of its tests.\<close>

definition message_types :: "string list" where
  "message_types =
     [''session.created'', ''response.audio.delta'', ''response.audio.done'',
      ''input_audio_buffer.speech_started'',
      ''conversation.item.input_audio_transcription.completed'',
      ''response.function_call_arguments.done'', ''response.done'']"

subsection \<open>The data channel opens, \<open>dc.onopen\<close>\<close>

definition instructions :: string where
  "instructions =
     ''You are a friendly, enthusiastic AI assistant talking to a child about the colorful hot air balloons in the image.\<newline>\<newline>Your goal is to have a fun, engaging 1-minute conversation:\<newline>- Start by greeting the child warmly and asking what they see in the image\<newline>- Ask open-ended questions about the balloons, colors, and what the child imagines\<newline>- Be playful and encouraging\<newline>- Use simple, child-friendly language\<newline>- Show excitement about their answers\<newline>- Occasionally use the add_effect_to_image tool to add visual effects (sparkle, heart, or star) to the image when something exciting happens\<newline>- Keep the conversation flowing naturally\<newline>\<newline>Remember: You're talking to a young child, so be patient, encouraging, and fun!''"

definition initialMessage :: jsval where
  "initialMessage =
     JObj [(''type'', JStr ''session.update''),
           (''session'',
            JObj [(''turn_detection'', JObj [(''type'', JStr ''server_vad'')]),
                  (''input_audio_transcription'', JObj [(''model'', JStr ''whisper-1'')]),
                  (''tools'',
                   JArr [JObj [(''type'', JStr ''function''),
                               (''name'', JStr ''add_effect_to_image''),
                               (''description'',
                                JStr ''Add a visual effect to the image on screen (sparkle, heart, or star effect)''),
                               (''parameters'',
                                JObj [(''type'', JStr ''object''),
                                      (''properties'',
                                       JObj [(''effect'',
                                              JObj [(''type'', JStr ''string''),
                                                    (''enum'', JArr [JStr ''sparkle'', JStr ''heart'',
                                                                     JStr ''star'']),
                                                    (''description'',
                                                     JStr ''The type of effect to add to the image'')])]),
                                      (''required'', JArr [JStr ''effect''])])]]),
                  (''instructions'', JStr instructions)])]"

definition conversationItem :: jsval where
  "conversationItem =
     JObj [(''type'', JStr ''conversation.item.create''),
           (''item'',
            JObj [(''type'', JStr ''message''),
                  (''role'', JStr ''user''),
                  (''content'',
                   JArr [JObj [(''type'', JStr ''input_text''),
                               (''text'',
                                JStr ''Hi! Please start our conversation by telling me about this picture!'')]])])]"

definition onopen :: "platform \<Rightarrow> effect list" where
  "onopen P =
     [ConsoleLogText ''Data channel opened'',
      Send (JSON_stringify P initialMessage),
      Send (JSON_stringify P conversationItem),
      Send (JSON_stringify P response_create)]"

subsection \<open>\<open>stopConversation\<close>\<close>

definition stopConversation :: "component \<Rightarrow> effect list" where
  "stopConversation c =
     (case pcRef c of None \<Rightarrow> [] | Some h \<Rightarrow> [ClosePeerConnection h, SetPcRef None]) @
     (case dataChannelRef c of None \<Rightarrow> []
      | Some h \<Rightarrow> [CloseDataChannel h, SetDataChannelRef None]) @
     (case audioElementRef c of None \<Rightarrow> []
      | Some h \<Rightarrow> [ClearSrcObject h, SetAudioElementRef None]) @
     (case timerRef c of None \<Rightarrow> [] | Some h \<Rightarrow> [ClearInterval h, SetTimerRef None]) @
     [SetAIState idle, SetIsActive False, SetTimeRemaining CONVERSATION_DURATION]"

subsection \<open>The countdown timer\<close>

text \<open>
  The effect hook depends on \<open>isActive\<close> and \<open>timeRemaining\<close>: after each change it clears
  the interval it had set (the cleanup, which leaves \<open>timerRef\<close> as it is) and sets a new
  one if \<open>isActive && timeRemaining > 0\<close>. So an interval exists exactly while that
  condition holds, and it fires on current state.
\<close>

definition timer_cleanup :: "component \<Rightarrow> effect list" where
  "timer_cleanup c = (case timerRef c of None \<Rightarrow> [] | Some h \<Rightarrow> [ClearInterval h])"

definition timer_effect :: "handle \<Rightarrow> component \<Rightarrow> effect list" where
  "timer_effect h c =
     (if isActive c \<and> 0 < timeRemaining c then [SetInterval 1000, SetTimerRef (Some h)]
      else [])"

text \<open>
  One firing of the interval: \<open>setTimeRemaining(prev => ...)\<close>, where \<open>prev\<close> is the
  \<open>timeRemaining\<close> of the state. At \<open>prev <= 1\<close> the updater calls \<open>stopConversation\<close> and
  returns 0. The updater is run by React; whether the setter calls made inside it take
  effect before or after its own result depends on when React runs it, so both orders
  are modelled (\<open>nested_first\<close>).
\<close>

definition tick :: "bool \<Rightarrow> component \<Rightarrow> effect list" where
  "tick nested_first c =
     (if timeRemaining c \<le> 1 then
        (if nested_first then stopConversation c @ [SetTimeRemaining 0]
         else SetTimeRemaining 0 # stopConversation c)
      else [SetTimeRemaining (timeRemaining c - 1)])"

subsection \<open>\<open>startConversation\<close>\<close>

text \<open>
  The results of the browser calls that \<open>startConversation\<close> makes: \<open>Inl\<close> (or \<open>Some\<close>) is
  the exception thrown or the rejection of the awaited promise.
\<close>

record response =
  ok :: bool
  json :: "error + jsval"

record start_env =
  fetch_session :: "error + response"
  new_RTCPeerConnection :: "error + handle"
  createElement_audio :: handle
  getUserMedia :: "error + handle list"
  addTrack :: "handle option \<Rightarrow> error option"
  createDataChannel :: "error + handle"
  createOffer :: "error + string"
  setLocalDescription :: "error option"
  fetch_sdp :: "jsval \<Rightarrow> string \<Rightarrow> string \<Rightarrow> error + (error + string)"
  setRemoteDescription :: "string \<Rightarrow> error option"

text \<open>The four setter calls before the first \<open>await\<close>.\<close>

definition start_sync :: "effect list" where
  "start_sync =
     [SetAIState connecting, SetIsActive True, SetTimeRemaining CONVERSATION_DURATION,
      SetTranscript []]"

text \<open>
  The rest of the \<open>try\<close> block, in three parts. First the session bootstrap request:
  the response body is read as JSON, and a response that is not ok throws
  \<open>new Error(data.error || 'Failed to create session')\<close>.
\<close>

definition create_session :: "platform \<Rightarrow> start_env \<Rightarrow> error + jsval" where
  "create_session P env =
     (case fetch_session env of
        Inl err \<Rightarrow> Inl err
      | Inr resp \<Rightarrow>
     (case json resp of
        Inl err \<Rightarrow> Inl err
      | Inr data \<Rightarrow>
          if \<not> ok resp then
            (case get data ''error'' of
               Inl err \<Rightarrow> Inl err
             | Inr m \<Rightarrow>
            (case ToString P (if truthy m then m else JStr ''Failed to create session'') of
               Inl err \<Rightarrow> Inl err
             | Inr text \<Rightarrow> Inl (Error text)))
          else Inr data))"

text \<open>
  Then the peer connection, the audio element, the microphone track
  (\<open>ms.getTracks()[0]\<close>, \<open>undefined\<close> when there is none) and the data channel.
\<close>

definition open_peer :: "start_env \<Rightarrow> effect list \<times> error option" where
  "open_peer env =
     (case new_RTCPeerConnection env of
        Inl err \<Rightarrow> ([], Some err)
      | Inr pc \<Rightarrow>
          let es = [SetPcRef (Some pc), SetAudioElementRef (Some (createElement_audio env))] in
     (case getUserMedia env of
        Inl err \<Rightarrow> (es, Some err)
      | Inr tracks \<Rightarrow>
     (case addTrack env (case tracks of [] \<Rightarrow> None | t # _ \<Rightarrow> Some t) of
        Some err \<Rightarrow> (es, Some err)
      | None \<Rightarrow>
     (case createDataChannel env of
        Inl err \<Rightarrow> (es, Some err)
      | Inr dc \<Rightarrow> (es @ [SetDataChannelRef (Some dc)], None)))))"

text \<open>
  Last the offer and the answer; \<open>data.client_secret.value\<close> is read for the request,
  and converted to a string for its \<open>Authorization\<close> header.
\<close>

definition negotiate :: "platform \<Rightarrow> start_env \<Rightarrow> jsval \<Rightarrow> error option" where
  "negotiate P env data =
     (case createOffer env of
        Inl err \<Rightarrow> Some err
      | Inr sdp \<Rightarrow>
     (case setLocalDescription env of
        Some err \<Rightarrow> Some err
      | None \<Rightarrow>
     (case get data ''client_secret'' of
        Inl err \<Rightarrow> Some err
      | Inr secret \<Rightarrow>
     (case get secret ''value'' of
        Inl err \<Rightarrow> Some err
      | Inr v \<Rightarrow>
     (case ToString P v of
        Inl err \<Rightarrow> Some err
      | Inr token \<Rightarrow>
     (case fetch_sdp env v sdp (''Bearer '' @ token) of
        Inl err \<Rightarrow> Some err
      | Inr sdpResponse \<Rightarrow>
     (case sdpResponse of
        Inl err \<Rightarrow> Some err
      | Inr answer \<Rightarrow> setRemoteDescription env answer)))))))"

definition start_async_try :: "platform \<Rightarrow> start_env \<Rightarrow> effect list \<times> error option" where
  "start_async_try P env =
     (case create_session P env of
        Inl err \<Rightarrow> ([], Some err)
      | Inr data \<Rightarrow>
     (case open_peer env of
        (es, Some err) \<Rightarrow> (es, Some err)
      | (es, None) \<Rightarrow> (es, negotiate P env data)))"

definition startConversation_try :: "platform \<Rightarrow> start_env \<Rightarrow> effect list \<times> error option" where
  "startConversation_try P env =
     (case start_async_try P env of (es, r) \<Rightarrow> (start_sync @ es, r))"

text \<open>
  The whole function: the \<open>catch\<close> clause logs the exception, resets two state variables
  and ends normally. The second component is the exception that leaves the function.
\<close>

definition startConversation :: "platform \<Rightarrow> start_env \<Rightarrow> effect list \<times> error option" where
  "startConversation P env =
     (case startConversation_try P env of
        (es, None) \<Rightarrow> (es, None)
      | (es, Some err) \<Rightarrow> (es @ [ConsoleError err, SetAIState idle, SetIsActive False], None))"

subsection \<open>Events\<close>

text \<open>
  What can happen to the mounted component. \<open>startConversation\<close> is asynchronous: its
  first four effects happen at the click (\<open>StartClicked\<close>), and each later effect of the
  call happens at some later time, other events in between (\<open>StartStep env n\<close> is the
  \<open>n\<close>-th effect after the first four). The timer fires (\<open>Tick\<close>) only while its
  interval exists; \<open>TimerHook h\<close> is a run of the effect hook, \<open>h\<close> the handle of the
  new interval. \<open>EffectTimeout\<close> is the callback of
  \<open>setTimeout(() => setImageEffect('none'), 2000)\<close>.
\<close>

datatype event =
    StartClicked
  | StartStep start_env nat
  | StopClicked
  | Tick bool
  | TimerHook handle
  | ChannelOpen
  | Message string
  | EffectTimeout

definition effects_of :: "platform \<Rightarrow> event \<Rightarrow> component \<Rightarrow> effect list" where
  "effects_of P ev c =
     (case ev of
        StartClicked \<Rightarrow> start_sync
      | StartStep env n \<Rightarrow>
          (let es = drop (length start_sync) (fst (startConversation P env))
           in if n < length es then [es ! n] else [])
      | StopClicked \<Rightarrow> stopConversation c
      | Tick nested_first \<Rightarrow>
          if isActive c \<and> 0 < timeRemaining c then tick nested_first c else []
      | TimerHook h \<Rightarrow> timer_cleanup c @ timer_effect h c
      | ChannelOpen \<Rightarrow> onopen P
      | Message data \<Rightarrow> fst (onmessage P data)
      | EffectTimeout \<Rightarrow> [SetImageEffect (JStr ''none'')])"

definition step :: "platform \<Rightarrow> event \<Rightarrow> component \<Rightarrow> error + component" where
  "step P ev c = perform_all P (effects_of P ev c) c"

inductive reachable :: "platform \<Rightarrow> component \<Rightarrow> bool" for P :: platform where
  reachable_initial: "reachable P initial"
| reachable_step: "reachable P c \<Longrightarrow> step P ev c = Inr c' \<Longrightarrow> reachable P c'"

text \<open>
  A run of events from a state, and the number of timer firings in it that find the
  interval set. A run ends when React fails to apply an update.
\<close>

fun run :: "platform \<Rightarrow> event list \<Rightarrow> component \<Rightarrow> error + component" where
  "run P [] c = Inr c"
| "run P (ev # evs) c = (case step P ev c of Inl err \<Rightarrow> Inl err | Inr c' \<Rightarrow> run P evs c')"

fun is_tick :: "event \<Rightarrow> bool" where
  "is_tick (Tick b) = True"
| "is_tick ev = False"

fun ticks_fired :: "platform \<Rightarrow> event list \<Rightarrow> component \<Rightarrow> nat" where
  "ticks_fired P [] c = 0"
| "ticks_fired P (ev # evs) c =
     (if is_tick ev \<and> isActive c \<and> 0 < timeRemaining c then 1 else 0) +
     (case step P ev c of Inl err \<Rightarrow> 0 | Inr c' \<Rightarrow> ticks_fired P evs c')"

section \<open>Example inputs\<close>

text \<open>
  Eight message texts as the service sends them, and what \<open>JSON.parse\<close> makes of them
  and of the \<open>arguments\<close> strings they carry.
\<close>

definition sparkle_call_text :: string where
  \<open>sparkle_call_text =
     ''{"type":"response.function_call_arguments.done","name":"add_effect_to_image","call_id":"call_1","arguments":"{'' @
     [CHR 0x5C] @ ''"effect'' @ [CHR 0x5C] @ ''":'' @ [CHR 0x5C] @ ''"sparkle'' @ [CHR 0x5C] @ ''"}"}''\<close>

definition sparkle_args_text :: string where
  \<open>sparkle_args_text = ''{"effect":"sparkle"}''\<close>

definition sparkle_call :: jsval where
  "sparkle_call =
     JObj [(''type'', JStr ''response.function_call_arguments.done''),
           (''name'', JStr ''add_effect_to_image''),
           (''call_id'', JStr ''call_1''),
           (''arguments'', JStr sparkle_args_text)]"

definition null_call_text :: string where
  \<open>null_call_text =
     ''{"type":"response.function_call_arguments.done","name":"get_weather","call_id":"call_2","arguments":"null"}''\<close>

definition null_call :: jsval where
  "null_call =
     JObj [(''type'', JStr ''response.function_call_arguments.done''),
           (''name'', JStr ''get_weather''),
           (''call_id'', JStr ''call_2''),
           (''arguments'', JStr ''null'')]"

definition weather_call_text :: string where
  \<open>weather_call_text =
     ''{"type":"response.function_call_arguments.done","name":"get_weather","call_id":"call_3","arguments":"{}"}''\<close>

definition weather_call :: jsval where
  "weather_call =
     JObj [(''type'', JStr ''response.function_call_arguments.done''),
           (''name'', JStr ''get_weather''),
           (''call_id'', JStr ''call_3''),
           (''arguments'', JStr ''{}'')]"

definition user_line_text :: string where
  \<open>user_line_text =
     ''{"type":"conversation.item.input_audio_transcription.completed","transcript":"I see balloons"}''\<close>

definition user_line :: jsval where
  "user_line =
     JObj [(''type'', JStr ''conversation.item.input_audio_transcription.completed''),
           (''transcript'', JStr ''I see balloons'')]"

definition rate_limits_text :: string where
  \<open>rate_limits_text = ''{"type":"rate_limits.updated","rate_limits":[]}''\<close>

definition rate_limits :: jsval where
  "rate_limits = JObj [(''type'', JStr ''rate_limits.updated''), (''rate_limits'', JArr [])]"

definition empty_response_text :: string where
  \<open>empty_response_text = ''{"type":"response.done","response":{"output":[]}}''\<close>

definition empty_response :: jsval where
  "empty_response =
     JObj [(''type'', JStr ''response.done''), (''response'', JObj [(''output'', JArr [])])]"

definition bad_args_call_text :: string where
  \<open>bad_args_call_text =
     ''{"type":"response.function_call_arguments.done","name":"add_effect_to_image","call_id":"call_4","arguments":"sparkle"}''\<close>

definition bad_args_call :: jsval where
  "bad_args_call =
     JObj [(''type'', JStr ''response.function_call_arguments.done''),
           (''name'', JStr ''add_effect_to_image''),
           (''call_id'', JStr ''call_4''),
           (''arguments'', JStr ''sparkle'')]"

definition ai_line_text :: string where
  \<open>ai_line_text =
     ''{"type":"response.done","response":{"output":[{"content":[{"transcript":"Look at the balloons"}]}]}}''\<close>

definition ai_line :: jsval where
  "ai_line =
     JObj [(''type'', JStr ''response.done''),
           (''response'',
            JObj [(''output'',
                   JArr [JObj [(''content'',
                               JArr [JObj [(''transcript'',
                                           JStr ''Look at the balloons'')]])]])])]"

definition demo_parse :: "string \<Rightarrow> error + jsval" where
  "demo_parse s =
     (if s = sparkle_call_text then Inr sparkle_call
      else if s = sparkle_args_text then Inr (JObj [(''effect'', JStr ''sparkle'')])
      else if s = null_call_text then Inr null_call
      else if s = ''null'' then Inr JNull
      else if s = weather_call_text then Inr weather_call
      else if s = ''{}'' then Inr (JObj [])
      else if s = user_line_text then Inr user_line
      else if s = rate_limits_text then Inr rate_limits
      else if s = empty_response_text then Inr empty_response
      else if s = bad_args_call_text then Inr bad_args_call
      else if s = ai_line_text then Inr ai_line
      else Inl SyntaxError)"

text \<open>
  A platform for the examples: \<open>JSON.parse\<close> on the texts above (every other text
  used below, such as \<open>hello\<close>, is not JSON), \<open>ToString\<close> on strings, \<open>undefined\<close> and
  \<open>null\<close>, and a serialiser whose output the examples do not look into.
\<close>

definition demo_platform :: platform where
  "demo_platform =
     \<lparr> JSON_parse = demo_parse,
       JSON_stringify = (\<lambda>v. ''{}''),
       ToString = (\<lambda>v. case v of JStr s \<Rightarrow> Inr s | JNull \<Rightarrow> Inr ''null''
                          | _ \<Rightarrow> Inr ''undefined'') \<rparr>"

section \<open>Auxiliary notions\<close>

text \<open>The effects that \<open>startConversation\<close> can perform after its first \<open>await\<close>.\<close>

fun is_start_later :: "effect \<Rightarrow> bool" where
  "is_start_later (SetPcRef (Some h)) = True"
| "is_start_later (SetAudioElementRef (Some h)) = True"
| "is_start_later (SetDataChannelRef (Some h)) = True"
| "is_start_later (ConsoleError err) = True"
| "is_start_later (SetAIState a) = (a = idle)"
| "is_start_later (SetIsActive b) = (\<not> b)"
| "is_start_later e = False"

text \<open>
  The invariant of the countdown, and the number of firings a session has left.
\<close>

definition timer_invariant :: "component \<Rightarrow> bool" where
  "timer_invariant c =
     (0 \<le> timeRemaining c \<and> timeRemaining c \<le> CONVERSATION_DURATION \<and>
      (\<not> isActive c \<or> 1 \<le> timeRemaining c))"

definition ticks_left :: "component \<Rightarrow> nat" where
  "ticks_left c = (if isActive c then nat (timeRemaining c) else 0)"

text \<open>
  Browser results for \<open>startConversation\<close>: the bootstrap request answered with an
  error status and the body \<open>{"error":"Unauthorized"}\<close>; every later call would succeed.
\<close>

definition unauthorized_env :: start_env where
  "unauthorized_env =
     \<lparr> fetch_session =
         Inr \<lparr> ok = False, json = Inr (JObj [(''error'', JStr ''Unauthorized'')]) \<rparr>,
       new_RTCPeerConnection = Inr 1,
       createElement_audio = 2,
       getUserMedia = Inr [3],
       addTrack = (\<lambda>t. None),
       createDataChannel = Inr 4,
       createOffer = Inr ''v=0'',
       setLocalDescription = None,
       fetch_sdp = (\<lambda>v sdp auth. Inr (Inr ''v=0'')),
       setRemoteDescription = (\<lambda>answer. None) \<rparr>"

section \<open>Properties\<close>

subsection \<open>Performing effects\<close>

lemma perform_console: "is_console e \<Longrightarrow> perform P e c = Inr c"
  by (cases e) simp_all

lemma perform_all_console: "\<forall>e\<in>set es. is_console e \<Longrightarrow> perform_all P es c = Inr c"
  by (induction es) (simp_all add: perform_console)

lemma perform_all_append:
  "perform_all P (es @ fs) c =
     (case perform_all P es c of Inl err \<Rightarrow> Inl err | Inr c' \<Rightarrow> perform_all P fs c')"
  by (induction es arbitrary: c) (simp_all split: sum.splits)

lemma sent_append: "sent (es @ fs) = sent es @ sent fs"
  by (induction es rule: sent.induct) simp_all

lemma sent_console: "\<forall>e\<in>set es. is_console e \<Longrightarrow> sent es = []"
  by (induction es rule: sent.induct) simp_all

lemma function_call_done_thrown:
  "snd (function_call_done P msg) = Some err \<Longrightarrow> fst (function_call_done P msg) = []"
  by (auto simp: function_call_done_def get_def Let_def split: sum.splits if_splits)

lemma function_call_done_returned:
  assumes "ToString P (field msg ''arguments'') = Inr text"
      and "JSON_parse P text = Inr args"
      and "\<not> nullish args"
  shows "function_call_done P msg =
     ((if field msg ''name'' = JStr ''add_effect_to_image'' \<and> truthy (field args ''effect'')
       then [SetImageEffect (field args ''effect''), SetTimeout 2000] else []) @
      [Send (JSON_stringify P (functionOutput P msg (field args ''effect''))),
       Send (JSON_stringify P response_create)], None)"
  using assms by (simp add: function_call_done_def get_def)

lemma onmessage_try_thrown:
  assumes "snd (onmessage_try P data) = Some err"
  shows "\<forall>e\<in>set (fst (onmessage_try P data)). is_console e"
proof (cases "JSON_parse P data")
  case (Inl e)
  then show ?thesis by (simp add: onmessage_try_def)
next
  case (Inr msg)
  show ?thesis
  proof (cases "nullish msg")
    case True
    with Inr show ?thesis by (simp add: onmessage_try_def get_def)
  next
    case False
    show ?thesis
    proof (cases "field msg ''type'' = JStr ''response.function_call_arguments.done''")
      case True
      with Inr False assms have "snd (function_call_done P msg) = Some err"
        by (simp add: onmessage_try_def get_def split: prod.splits)
      then have "fst (function_call_done P msg) = []"
        by (rule function_call_done_thrown)
      with Inr False True show ?thesis
        by (cases "function_call_done P msg") (simp add: onmessage_try_def get_def)
    next
      case ne: False
      with Inr False assms show ?thesis
        by (simp add: onmessage_try_def get_def split: if_splits)
    qed
  qed
qed

lemma onmessage_fst:
  "fst (onmessage P data) =
     fst (onmessage_try P data) @
     (case snd (onmessage_try P data) of None \<Rightarrow> [] | Some err \<Rightarrow> [ConsoleError err])"
  by (simp add: onmessage_def split: prod.splits option.splits)

lemma onmessage_function_call:
  assumes "JSON_parse P data = Inr msg"
      and "field msg ''type'' = JStr ''response.function_call_arguments.done''"
  shows "onmessage P data =
     (case function_call_done P msg of
        (es, None) \<Rightarrow> (ConsoleLog (field msg ''type'') # es, None)
      | (es, Some err) \<Rightarrow> (ConsoleLog (field msg ''type'') # es @ [ConsoleError err], None))"
proof -
  from assms(2) have "\<not> nullish msg" by (cases msg) auto
  with assms show ?thesis
    by (simp add: onmessage_def onmessage_try_def get_def split: prod.splits option.splits)
qed

lemmas demo_texts =
  sparkle_call_text_def sparkle_args_text_def null_call_text_def weather_call_text_def
  user_line_text_def rate_limits_text_def empty_response_text_def bad_args_call_text_def
        ai_line_text_def

lemma onmessage_other_type:
  assumes "JSON_parse P data = Inr msg" and "\<not> nullish msg"
      and "field msg ''type'' \<noteq> JStr ''response.function_call_arguments.done''"
  shows "onmessage P data =
     (ConsoleLog (field msg ''type'') #
      (if field msg ''type'' = JStr ''session.created'' then [SetAIState listening]
       else if field msg ''type'' = JStr ''response.audio.delta'' then [SetAIState speaking]
       else if field msg ''type'' = JStr ''response.audio.done'' then [SetAIState listening]
       else if field msg ''type'' = JStr ''input_audio_buffer.speech_started''
         then [SetAIState listening]
       else if field msg ''type'' =
           JStr ''conversation.item.input_audio_transcription.completed''
         then [AppendTranscript ''You: '' (field msg ''transcript'')]
       else if field msg ''type'' = JStr ''response.done'' then response_done msg
       else []), None)"
  using assms by (simp add: onmessage_def onmessage_try_def get_def)

lemma side_effects_simps:
  "side_effects [] = []"
  "side_effects (ConsoleLog v # es) = side_effects es"
  "side_effects (ConsoleError err # es) = side_effects es"
  "side_effects (SetAIState a # es) = SetAIState a # side_effects es"
  "side_effects (AppendTranscript p v # es) = AppendTranscript p v # side_effects es"
  "side_effects (SetImageEffect v # es) = SetImageEffect v # side_effects es"
  "side_effects (SetTimeout n # es) = SetTimeout n # side_effects es"
  "side_effects (Send s # es) = Send s # side_effects es"
  by (simp_all add: side_effects_def)

lemma side_effects_append: "side_effects (es @ fs) = side_effects es @ side_effects fs"
  by (simp add: side_effects_def)

lemma each_type_has_a_branch:
  assumes "t \<in> set message_types"
  shows "\<exists>P data msg. JSON_parse P data = Inr msg \<and> field msg ''type'' = JStr t \<and>
           side_effects (fst (onmessage P data)) \<noteq> []"
proof -
  define m where "m = JObj [(''type'', JStr t),
     (''response'', JObj [(''output'', JArr [JObj [(''content'',
          JArr [JObj [(''transcript'', JStr ''hi'')]])]])])]"
  define P where "P = \<lparr> JSON_parse = (\<lambda>s. Inr m), JSON_stringify = (\<lambda>v. []),
                        ToString = (\<lambda>v. Inr []) \<rparr>"
  have p: "JSON_parse P [] = Inr m" by (simp add: P_def)
  have ty: "field m ''type'' = JStr t" and nn: "\<not> nullish m" by (simp_all add: m_def)
  have "side_effects (fst (onmessage P [])) \<noteq> []"
  proof (cases "t = ''response.function_call_arguments.done''")
    case True
    have "ToString P (field m ''arguments'') = Inr []" by (simp add: P_def)
    with p ty nn True show ?thesis
      by (simp add: onmessage_function_call function_call_done_returned side_effects_simps
          side_effects_append)
  next
    case False
    have "response_done m = [AppendTranscript ''AI: '' (JStr ''hi'')]"
      by (simp add: response_done_def m_def opt_field_def opt_index0_def)
    with p ty nn False assms show ?thesis
      by (auto simp: onmessage_other_type message_types_def side_effects_simps)
  qed
  with p ty show ?thesis by blast
qed

lemma perform_all_stopConversation:
  "perform_all P (stopConversation c) c' =
     Inr (c'\<lparr>pcRef := (if pcRef c = None then pcRef c' else None),
             dataChannelRef := (if dataChannelRef c = None then dataChannelRef c' else None),
             audioElementRef := (if audioElementRef c = None then audioElementRef c' else None),
             timerRef := (if timerRef c = None then timerRef c' else None),
             aiState := idle, isActive := False, timeRemaining := CONVERSATION_DURATION\<rparr>)"
  by (simp add: stopConversation_def perform_all_append split: option.splits)

lemma step_StopClicked:
  "step P StopClicked c =
     Inr (c\<lparr>pcRef := None, dataChannelRef := None, audioElementRef := None, timerRef := None,
            aiState := idle, isActive := False, timeRemaining := CONVERSATION_DURATION\<rparr>)"
  by (simp add: step_def effects_of_def perform_all_stopConversation)

lemma open_peer_effects: "\<forall>e\<in>set (fst (open_peer env)). is_start_later e"
  by (auto simp: open_peer_def Let_def split: sum.splits option.splits)

lemma start_async_try_effects: "\<forall>e\<in>set (fst (start_async_try P env)). is_start_later e"
  using open_peer_effects [of env]
  by (auto simp: start_async_try_def split: sum.splits option.splits prod.splits)

lemma startConversation_fst:
  "fst (startConversation P env) =
     start_sync @ fst (start_async_try P env) @
     (case snd (start_async_try P env) of
        None \<Rightarrow> []
      | Some err \<Rightarrow> [ConsoleError err, SetAIState idle, SetIsActive False])"
  by (simp add: startConversation_def startConversation_try_def split: prod.splits option.splits)

lemma start_later_effects:
  "\<forall>e\<in>set (drop (length start_sync) (fst (startConversation P env))). is_start_later e"
  using start_async_try_effects [of P env]
  by (auto simp: startConversation_fst split: option.splits)

lemma perform_start_later:
  assumes "is_start_later e"
  shows "\<exists>c'. perform P e c = Inr c' \<and> timeRemaining c' = timeRemaining c \<and>
           transcript c' = transcript c \<and> imageEffect c' = imageEffect c \<and>
           (isActive c' \<longrightarrow> isActive c) \<and> (aiState c' = aiState c \<or> aiState c' = idle)"
  using assms by (cases e rule: is_start_later.cases) auto

lemma step_StartStep:
  "step P (StartStep env n) c = Inr c \<or>
   (\<exists>e. is_start_later e \<and> step P (StartStep env n) c = perform P e c)"
proof (cases "n < length (drop (length start_sync) (fst (startConversation P env)))")
  case True
  then have "drop (length start_sync) (fst (startConversation P env)) ! n
      \<in> set (drop (length start_sync) (fst (startConversation P env)))"
    by (rule nth_mem)
  with start_later_effects
  have "is_start_later (drop (length start_sync) (fst (startConversation P env)) ! n)"
    by blast
  moreover from True
  have "step P (StartStep env n) c =
          perform P (drop (length start_sync) (fst (startConversation P env)) ! n) c"
    by (simp add: step_def effects_of_def Let_def split: sum.splits)
  ultimately show ?thesis by blast
next
  case False
  then show ?thesis by (simp add: step_def effects_of_def Let_def)
qed

lemma function_call_done_effects:
  "\<forall>e\<in>set (fst (function_call_done P msg)).
     (\<exists>v. e = SetImageEffect v) \<or> (\<exists>n. e = SetTimeout n) \<or> (\<exists>s. e = Send s)"
  by (auto simp: function_call_done_def get_def split: sum.splits if_splits)

lemma perform_all_frame:
  assumes "\<forall>e\<in>set es. (\<exists>v. e = SetImageEffect v) \<or> (\<exists>n. e = SetTimeout n) \<or>
             (\<exists>s. e = Send s) \<or> is_console e"
  shows "perform_all P es c = Inr (c\<lparr>imageEffect := imageEffect
           (case perform_all P es c of Inr c' \<Rightarrow> c' | Inl err \<Rightarrow> c)\<rparr>)"
  using assms
proof (induction es arbitrary: c)
  case Nil
  then show ?case by simp
next
  case (Cons e es)
  from Cons.prems have "(\<exists>v. e = SetImageEffect v) \<or> perform P e c = Inr c"
    by (cases e) auto
  then show ?case
  proof
    assume "\<exists>v. e = SetImageEffect v"
    then obtain v where e: "e = SetImageEffect v" ..
    from Cons.prems have "perform_all P es (c\<lparr>imageEffect := v\<rparr>) =
       Inr (c\<lparr>imageEffect := v\<rparr>\<lparr>imageEffect := imageEffect
           (case perform_all P es (c\<lparr>imageEffect := v\<rparr>) of Inr c' \<Rightarrow> c' | Inl err \<Rightarrow> c\<lparr>imageEffect := v\<rparr>)\<rparr>)"
      by (intro Cons.IH) simp
    with e show ?thesis by (simp split: sum.splits)
  next
    assume p: "perform P e c = Inr c"
    from Cons.prems have "perform_all P es c = Inr (c\<lparr>imageEffect := imageEffect
           (case perform_all P es c of Inr c' \<Rightarrow> c' | Inl err \<Rightarrow> c)\<rparr>)"
      by (intro Cons.IH) simp
    with p show ?thesis by simp
  qed
qed

lemma step_Message_cases:
  assumes "step P (Message data) c = Inr c'"
  shows "c' = c \<or> (\<exists>v. c' = c\<lparr>imageEffect := v\<rparr>) \<or> (\<exists>a. c' = c\<lparr>aiState := a\<rparr>) \<or>
         (\<exists>s. c' = c\<lparr>transcript := transcript c @ [''You: '' @ s]\<rparr>) \<or>
         (\<exists>s. c' = c\<lparr>transcript := transcript c @ [''AI: '' @ s]\<rparr>)"
proof (cases "snd (onmessage_try P data)")
  case (Some err)
  then have "\<forall>e\<in>set (fst (onmessage P data)). is_console e"
    using onmessage_try_thrown [of P data err] by (simp add: onmessage_fst)
  then have "step P (Message data) c = Inr c"
    by (simp add: step_def effects_of_def perform_all_console)
  with assms show ?thesis by simp
next
  case None
  then obtain msg where p: "JSON_parse P data = Inr msg" and nn: "\<not> nullish msg"
    by (auto simp: onmessage_try_def get_def split: sum.splits if_splits)
  show ?thesis
  proof (cases "field msg ''type'' = JStr ''response.function_call_arguments.done''")
    case True
    have "\<forall>e\<in>set (fst (onmessage P data)).
            (\<exists>v. e = SetImageEffect v) \<or> (\<exists>n. e = SetTimeout n) \<or> (\<exists>s. e = Send s) \<or>
            is_console e"
      using function_call_done_effects [of P msg] p True
      by (cases "function_call_done P msg")
        (auto simp: onmessage_function_call split: option.splits)
    from perform_all_frame [OF this, of P c] assms
    show ?thesis by (auto simp: step_def effects_of_def)
  next
    case False
    with p nn assms show ?thesis
      by (auto simp: onmessage_other_type step_def effects_of_def response_done_def Let_def
          split: if_splits sum.splits)
  qed
qed

lemma step_StartClicked:
  "step P StartClicked c =
     Inr (c\<lparr>aiState := connecting, isActive := True,
            timeRemaining := CONVERSATION_DURATION, transcript := []\<rparr>)"
  by (simp add: step_def effects_of_def start_sync_def)

lemma step_Tick:
  "step P (Tick b) c =
     Inr (if isActive c \<and> 0 < timeRemaining c then
            (if timeRemaining c \<le> 1 then
               c\<lparr>pcRef := None, dataChannelRef := None, audioElementRef := None,
                  timerRef := None, aiState := idle, isActive := False,
                  timeRemaining := (if b then 0 else CONVERSATION_DURATION)\<rparr>
             else c\<lparr>timeRemaining := timeRemaining c - 1\<rparr>)
          else c)"
  by (simp add: step_def effects_of_def tick_def perform_all_append
      perform_all_stopConversation)

lemma step_TimerHook:
  "step P (TimerHook h) c =
     Inr (if isActive c \<and> 0 < timeRemaining c then c\<lparr>timerRef := Some h\<rparr> else c)"
  by (auto simp: step_def effects_of_def timer_cleanup_def timer_effect_def perform_all_append
      split: option.splits)

lemma step_StartStep_frame:
  assumes "step P (StartStep env n) c = Inr c'"
  shows "timeRemaining c' = timeRemaining c \<and> transcript c' = transcript c \<and>
         imageEffect c' = imageEffect c \<and> (isActive c' \<longrightarrow> isActive c) \<and>
         (aiState c' = aiState c \<or> aiState c' = idle)"
proof -
  from step_StartStep [of P env n c]
  consider "step P (StartStep env n) c = Inr c"
    | e where "is_start_later e" "step P (StartStep env n) c = perform P e c"
    by blast
  then show ?thesis
  proof cases
    case 1
    with assms show ?thesis by simp
  next
    case 2
    from perform_start_later [OF 2(1), of P c] obtain c'' where
      "perform P e c = Inr c''" "timeRemaining c'' = timeRemaining c"
      "transcript c'' = transcript c" "imageEffect c'' = imageEffect c"
      "isActive c'' \<longrightarrow> isActive c" "aiState c'' = aiState c \<or> aiState c'' = idle"
      by blast
    with 2(2) assms show ?thesis by simp
  qed
qed

lemma step_ChannelOpen: "step P ChannelOpen c = Inr c"
  by (simp add: step_def effects_of_def onopen_def)

lemma step_EffectTimeout: "step P EffectTimeout c = Inr (c\<lparr>imageEffect := JStr ''none''\<rparr>)"
  by (simp add: step_def effects_of_def)

lemma perform_all_start_later:
  assumes "\<forall>e\<in>set es. is_start_later e"
  shows "\<exists>c'. perform_all P es c = Inr c'"
  using assms
proof (induction es arbitrary: c)
  case Nil
  then show ?case by simp
next
  case (Cons e es)
  then have "is_start_later e" by simp
  from perform_start_later [OF this, of P c]
  obtain c1 where "perform P e c = Inr c1" by blast
  moreover from Cons obtain c' where "perform_all P es c1 = Inr c'" by fastforce
  ultimately show ?case by simp
qed

lemma create_session_not_ok:
  assumes "fetch_session env = Inr resp" and "\<not> ok resp"
  shows "\<exists>err. create_session P env = Inl err"
  using assms by (auto simp: create_session_def split: sum.splits)

lemma step_Message_frame:
  assumes "step P (Message data) c = Inr c'"
  shows "timeRemaining c' = timeRemaining c \<and> isActive c' = isActive c"
  using step_Message_cases [OF assms] by auto

lemma timer_step:
  assumes "timer_invariant c" and "step P ev c = Inr c'"
  shows "timer_invariant c'"
proof (cases ev)
  case (StartStep env n)
  with assms step_StartStep_frame [of P env n c c'] show ?thesis
    by (auto simp: timer_invariant_def)
next
  case (Message data)
  with assms step_Message_frame [of P data c c'] show ?thesis
    by (auto simp: timer_invariant_def)
qed (use assms in \<open>auto simp: timer_invariant_def CONVERSATION_DURATION_def step_StartClicked
       step_StopClicked step_Tick step_TimerHook step_ChannelOpen step_EffectTimeout
       split: if_splits\<close>)

lemma reachable_timer_invariant: "reachable P c \<Longrightarrow> timer_invariant c"
proof (induction rule: reachable.induct)
  case reachable_initial
  show ?case by (simp add: timer_invariant_def initial_def CONVERSATION_DURATION_def)
next
  case (reachable_step c ev c')
  then show ?case using timer_step by blast
qed

lemma ticks_left_step:
  assumes "timer_invariant c" and "ev \<noteq> StartClicked" and "step P ev c = Inr c'"
  shows "(if is_tick ev \<and> isActive c \<and> 0 < timeRemaining c then 1 else 0) + ticks_left c'
           \<le> ticks_left c"
proof (cases ev)
  case StartClicked
  with assms show ?thesis by simp
next
  case (StartStep env n)
  with assms step_StartStep_frame [of P env n c c'] show ?thesis
    by (auto simp: ticks_left_def)
next
  case (Message data)
  with assms step_Message_frame [of P data c c'] show ?thesis
    by (auto simp: ticks_left_def)
qed (use assms in \<open>auto simp: ticks_left_def timer_invariant_def step_StopClicked
       step_Tick step_TimerHook step_ChannelOpen step_EffectTimeout split: if_splits\<close>)

lemma ticks_fired_le_ticks_left:
  assumes "timer_invariant c" and "StartClicked \<notin> set evs"
  shows "ticks_fired P evs c \<le> ticks_left c"
  using assms
proof (induction evs arbitrary: c)
  case Nil
  then show ?case by simp
next
  case (Cons ev evs)
  show ?case
  proof (cases "step P ev c")
    case (Inl err)
    have "ticks_left c \<ge> 1" if "isActive c" "0 < timeRemaining c"
      using that by (simp add: ticks_left_def)
    with Inl show ?thesis by auto
  next
    case (Inr c')
    from Cons.prems have ne: "ev \<noteq> StartClicked" and rest: "StartClicked \<notin> set evs" by auto
    from Cons.prems(1) Inr have "timer_invariant c'" by (rule timer_step)
    from this rest have "ticks_fired P evs c' \<le> ticks_left c'" by (rule Cons.IH)
    moreover from ticks_left_step [OF Cons.prems(1) ne Inr]
    have "(if is_tick ev \<and> isActive c \<and> 0 < timeRemaining c then 1 else 0) + ticks_left c'
           \<le> ticks_left c" .
    ultimately show ?thesis using Inr by simp
  qed
qed

lemma ticks_left_le: "timer_invariant c \<Longrightarrow> ticks_left c \<le> 60"
  by (auto simp: ticks_left_def timer_invariant_def CONVERSATION_DURATION_def)

lemma run_ticks_ends:
  assumes "isActive c" and "timeRemaining c = int (Suc n)"
  shows "\<exists>c'. run P (replicate (Suc n) (Tick b)) c = Inr c' \<and> \<not> isActive c'"
  using assms
proof (induction n arbitrary: c)
  case 0
  then show ?case by (simp add: step_Tick)
next
  case (Suc n)
  let ?c1 = "c\<lparr>timeRemaining := timeRemaining c - 1\<rparr>"
  from Suc.prems have s: "step P (Tick b) c = Inr ?c1" by (simp add: step_Tick)
  from Suc.prems have "isActive ?c1" "timeRemaining ?c1 = int (Suc n)" by simp_all
  then obtain c' where "run P (replicate (Suc n) (Tick b)) ?c1 = Inr c'" "\<not> isActive c'"
    using Suc.IH by blast
  with s show ?case by simp
qed

subsection \<open>The message handler catches every exception\<close>

text \<open>
  Claim C9. The inbound message handler never throws to its caller, whatever string
  arrives. A text that is not JSON, the message \<open>null\<close> (whose \<open>type\<close> cannot be read)
  and a function-call message whose \<open>arguments\<close> are not JSON all end in the \<open>catch\<close>
  clause; and whenever the \<open>try\<close> block throws, nothing but console output has
  happened: no side effect, nothing sent, every state variable and ref as before.
\<close>

theorem onmessage_never_throws:
  "snd (onmessage P data) = None \<and>
   (\<forall>err. JSON_parse P data = Inl err \<longrightarrow> onmessage P data = ([ConsoleError err], None)) \<and>
   (JSON_parse P data = Inr JNull \<longrightarrow> onmessage P data = ([ConsoleError TypeError], None)) \<and>
   (\<forall>msg err. JSON_parse P data = Inr msg \<longrightarrow>
      field msg ''type'' = JStr ''response.function_call_arguments.done'' \<longrightarrow>
      ToString P (field msg ''arguments'') = Inr text \<longrightarrow> JSON_parse P text = Inl err \<longrightarrow>
      onmessage P data = ([ConsoleLog (field msg ''type''), ConsoleError err], None)) \<and>
   (\<forall>err. snd (onmessage_try P data) = Some err \<longrightarrow>
      side_effects (fst (onmessage P data)) = [] \<and>
      sent (fst (onmessage P data)) = [] \<and>
      (\<forall>c. step P (Message data) c = Inr c))"
proof (intro conjI allI impI)
  show "snd (onmessage P data) = None"
    by (simp add: onmessage_def split: prod.splits option.splits)
next
  fix err assume "JSON_parse P data = Inl err"
  then show "onmessage P data = ([ConsoleError err], None)"
    by (simp add: onmessage_def onmessage_try_def)
next
  assume "JSON_parse P data = Inr JNull"
  then show "onmessage P data = ([ConsoleError TypeError], None)"
    by (simp add: onmessage_def onmessage_try_def get_def)
next
  fix msg err
  assume "JSON_parse P data = Inr msg"
     and "field msg ''type'' = JStr ''response.function_call_arguments.done''"
     and "ToString P (field msg ''arguments'') = Inr text"
     and "JSON_parse P text = Inl err"
  moreover from this have "\<not> nullish msg" by (cases msg) auto
  ultimately show "onmessage P data = ([ConsoleLog (field msg ''type''), ConsoleError err], None)"
    by (simp add: onmessage_def onmessage_try_def get_def function_call_done_def)
next
  fix err assume thrown: "snd (onmessage_try P data) = Some err"
  then have cons: "\<forall>e\<in>set (fst (onmessage P data)). is_console e"
    using onmessage_try_thrown [OF thrown] by (simp add: onmessage_fst)
  then show "side_effects (fst (onmessage P data)) = []"
    by (simp add: side_effects_def filter_empty_conv)
  from cons show "sent (fst (onmessage P data)) = []"
    by (rule sent_console)
  fix c
  from cons show "step P (Message data) c = Inr c"
    by (simp add: step_def effects_of_def perform_all_console)
qed

theorem onmessage_never_throws_witness:
  "JSON_parse demo_platform ''hello'' = Inl SyntaxError \<and>
   onmessage demo_platform ''hello'' = ([ConsoleError SyntaxError], None) \<and>
   snd (onmessage_try demo_platform ''hello'') = Some SyntaxError \<and>
   step demo_platform (Message ''hello'') initial = Inr initial \<and>
   JSON_parse demo_platform ''null'' = Inr JNull \<and>
   onmessage demo_platform ''null'' = ([ConsoleError TypeError], None) \<and>
   JSON_parse demo_platform bad_args_call_text = Inr bad_args_call \<and>
   JSON_parse demo_platform ''sparkle'' = Inl SyntaxError \<and>
   onmessage demo_platform bad_args_call_text =
     ([ConsoleLog (JStr ''response.function_call_arguments.done''), ConsoleError SyntaxError],
      None)"
proof -
  have hello: "JSON_parse demo_platform ''hello'' = Inl SyntaxError"
    by (simp add: demo_platform_def demo_parse_def sparkle_call_text_def
        sparkle_args_text_def null_call_text_def weather_call_text_def user_line_text_def
        rate_limits_text_def empty_response_text_def bad_args_call_text_def
        ai_line_text_def)
  have null: "JSON_parse demo_platform ''null'' = Inr JNull"
    by (simp add: demo_platform_def demo_parse_def sparkle_call_text_def
        sparkle_args_text_def null_call_text_def)
  have bad: "JSON_parse demo_platform bad_args_call_text = Inr bad_args_call"
    by (simp add: demo_platform_def demo_parse_def sparkle_call_text_def
        sparkle_args_text_def null_call_text_def weather_call_text_def user_line_text_def
        rate_limits_text_def empty_response_text_def bad_args_call_text_def
        ai_line_text_def)
  have sparkle: "JSON_parse demo_platform ''sparkle'' = Inl SyntaxError"
    by (simp add: demo_platform_def demo_parse_def sparkle_call_text_def
        sparkle_args_text_def null_call_text_def weather_call_text_def user_line_text_def
        rate_limits_text_def empty_response_text_def bad_args_call_text_def
        ai_line_text_def)
  have thrown: "snd (onmessage_try demo_platform ''hello'') = Some SyntaxError"
    using hello by (simp add: onmessage_try_def)
  have args: "ToString demo_platform (field bad_args_call ''arguments'') = Inr ''sparkle''"
    by (simp add: demo_platform_def bad_args_call_def)
  have ty: "field bad_args_call ''type'' = JStr ''response.function_call_arguments.done''"
    by (simp add: bad_args_call_def)
  show ?thesis
    using onmessage_never_throws [of demo_platform "''hello''" "''sparkle''"]
      onmessage_never_throws [of demo_platform "''null''" "''sparkle''"]
      onmessage_never_throws [of demo_platform bad_args_call_text "''sparkle''"]
      hello null bad sparkle thrown args ty
    by simp
qed

subsection \<open>Tool calls\<close>

text \<open>
  Claim C1. A \<open>response.function_call_arguments.done\<close> message whose name is
  \<open>add_effect_to_image\<close> and whose parsed arguments hold an effect (a value that the
  handler's test \<open>args.effect\<close> accepts) is executed locally, \<open>imageEffect\<close> becoming that
  effect, and is acknowledged: a \<open>conversation.item.create\<close> message with an item of
  type \<open>function_call_output\<close>, the \<open>call_id\<close> of the request and the output
  \<open>{success: true, effect}\<close> is sent, and then a \<open>response.create\<close> message.
\<close>

theorem tool_call_executed_and_acknowledged:
  assumes "JSON_parse P data = Inr msg"
      and "field msg ''type'' = JStr ''response.function_call_arguments.done''"
      and "field msg ''name'' = JStr ''add_effect_to_image''"
      and "ToString P (field msg ''arguments'') = Inr text"
      and "JSON_parse P text = Inr args"
      and "field args ''effect'' = eff"
      and "truthy eff"
  shows "onmessage P data =
           ([ConsoleLog (field msg ''type''), SetImageEffect eff, SetTimeout 2000,
             Send (JSON_stringify P
               (JObj [(''type'', JStr ''conversation.item.create''),
                      (''item'',
                       JObj [(''type'', JStr ''function_call_output''),
                             (''call_id'', field msg ''call_id''),
                             (''output'',
                              JStr (JSON_stringify P
                                (JObj [(''success'', JBool True), (''effect'', eff)])))])])),
             Send (JSON_stringify P (JObj [(''type'', JStr ''response.create'')]))], None) \<and>
         step P (Message data) c = Inr (c\<lparr>imageEffect := eff\<rparr>)"
proof -
  from assms(6,7) have "\<not> nullish args" by (cases args) auto
  with assms have "function_call_done P msg =
      ([SetImageEffect eff, SetTimeout 2000,
        Send (JSON_stringify P (functionOutput P msg eff)),
        Send (JSON_stringify P response_create)], None)"
    by (simp add: function_call_done_returned)
  with assms(1,2) have "onmessage P data =
      ([ConsoleLog (field msg ''type''), SetImageEffect eff, SetTimeout 2000,
        Send (JSON_stringify P (functionOutput P msg eff)),
        Send (JSON_stringify P response_create)], None)"
    by (simp add: onmessage_function_call)
  then show ?thesis
    by (simp add: step_def effects_of_def functionOutput_def response_create_def)
qed

theorem tool_call_executed_and_acknowledged_witness:
  "JSON_parse demo_platform sparkle_call_text = Inr sparkle_call \<and>
   field sparkle_call ''type'' = JStr ''response.function_call_arguments.done'' \<and>
   field sparkle_call ''name'' = JStr ''add_effect_to_image'' \<and>
   ToString demo_platform (field sparkle_call ''arguments'') = Inr sparkle_args_text \<and>
   JSON_parse demo_platform sparkle_args_text = Inr (JObj [(''effect'', JStr ''sparkle'')]) \<and>
   truthy (JStr ''sparkle'') \<and>
   step demo_platform (Message sparkle_call_text) initial =
     Inr (initial\<lparr>imageEffect := JStr ''sparkle''\<rparr>) \<and>
   sent (fst (onmessage demo_platform sparkle_call_text)) =
     [JSON_stringify demo_platform
        (JObj [(''type'', JStr ''conversation.item.create''),
               (''item'',
                JObj [(''type'', JStr ''function_call_output''),
                      (''call_id'', JStr ''call_1''),
                      (''output'',
                       JStr (JSON_stringify demo_platform
                         (JObj [(''success'', JBool True), (''effect'', JStr ''sparkle'')])))])]),
      JSON_stringify demo_platform (JObj [(''type'', JStr ''response.create'')])]"
proof -
  have p1: "JSON_parse demo_platform sparkle_call_text = Inr sparkle_call"
    by (simp add: demo_platform_def demo_parse_def)
  have p2: "JSON_parse demo_platform sparkle_args_text = Inr (JObj [(''effect'', JStr ''sparkle'')])"
    by (simp add: demo_platform_def demo_parse_def demo_texts)
  have f: "field sparkle_call ''type'' = JStr ''response.function_call_arguments.done''"
    "field sparkle_call ''name'' = JStr ''add_effect_to_image''"
    "field sparkle_call ''call_id'' = JStr ''call_1''"
    "ToString demo_platform (field sparkle_call ''arguments'') = Inr sparkle_args_text"
    by (simp_all add: sparkle_call_def demo_platform_def)
  have e: "field (JObj [(''effect'', JStr ''sparkle'')]) ''effect'' = JStr ''sparkle''"
    "truthy (JStr ''sparkle'')"
    by simp_all
  show ?thesis
    using tool_call_executed_and_acknowledged [OF p1 f(1) f(2) f(4) p2 e, of initial]
      p1 p2 f e
    by simp
qed

text \<open>
  Claim C10, as stated, fails when the arguments are the JSON text \<open>null\<close>: they parse,
  but reading \<open>args.effect\<close> throws, the \<open>catch\<close> clause logs the TypeError, and no
  acknowledgment is sent.
\<close>

theorem acknowledgment_missing_for_null_arguments:
  "JSON_parse demo_platform null_call_text = Inr null_call \<and>
   field null_call ''type'' = JStr ''response.function_call_arguments.done'' \<and>
   ToString demo_platform (field null_call ''arguments'') = Inr ''null'' \<and>
   JSON_parse demo_platform ''null'' = Inr JNull \<and>
   onmessage demo_platform null_call_text =
     ([ConsoleLog (JStr ''response.function_call_arguments.done''), ConsoleError TypeError],
      None) \<and>
   sent (fst (onmessage demo_platform null_call_text)) = []"
proof -
  have p1: "JSON_parse demo_platform null_call_text = Inr null_call"
    by (simp add: demo_platform_def demo_parse_def demo_texts)
  have p2: "JSON_parse demo_platform ''null'' = Inr JNull"
    by (simp add: demo_platform_def demo_parse_def demo_texts)
  have f: "field null_call ''type'' = JStr ''response.function_call_arguments.done''"
    "field null_call ''name'' = JStr ''get_weather''"
    "ToString demo_platform (field null_call ''arguments'') = Inr ''null''"
    by (simp_all add: null_call_def demo_platform_def)
  have "function_call_done demo_platform null_call = ([], Some TypeError)"
    using p2 f by (simp add: function_call_done_def get_def)
  then have "onmessage demo_platform null_call_text =
      ([ConsoleLog (JStr ''response.function_call_arguments.done''), ConsoleError TypeError],
       None)"
    using p1 f(1) by (simp add: onmessage_function_call)
  with p1 p2 f show ?thesis by simp
qed

text \<open>
  Claim C10, amended. For every \<open>response.function_call_arguments.done\<close> message whose
  arguments parse as JSON to a value other than \<open>null\<close>, the acknowledgment with
  \<open>success: true\<close> and then \<open>response.create\<close> are sent, whatever the function name;
  \<open>imageEffect\<close> changes only when the name is \<open>add_effect_to_image\<close> and the effect is
  truthy; a call of any other name is acknowledged and nothing else is done.
\<close>

theorem function_call_acknowledged:
  assumes "JSON_parse P data = Inr msg"
      and "field msg ''type'' = JStr ''response.function_call_arguments.done''"
      and "ToString P (field msg ''arguments'') = Inr text"
      and "JSON_parse P text = Inr args"
      and "\<not> nullish args"
  shows "sent (fst (onmessage P data)) =
           [JSON_stringify P
              (JObj [(''type'', JStr ''conversation.item.create''),
                     (''item'',
                      JObj [(''type'', JStr ''function_call_output''),
                            (''call_id'', field msg ''call_id''),
                            (''output'',
                             JStr (JSON_stringify P
                               (JObj [(''success'', JBool True),
                                      (''effect'', field args ''effect'')])))])]),
            JSON_stringify P (JObj [(''type'', JStr ''response.create'')])] \<and>
         step P (Message data) c =
           Inr (if field msg ''name'' = JStr ''add_effect_to_image'' \<and>
                   truthy (field args ''effect'')
                then c\<lparr>imageEffect := field args ''effect''\<rparr> else c) \<and>
         (field msg ''name'' \<noteq> JStr ''add_effect_to_image'' \<longrightarrow>
            side_effects (fst (onmessage P data)) =
              [Send (JSON_stringify P (functionOutput P msg (field args ''effect''))),
               Send (JSON_stringify P response_create)])"
proof -
  have "onmessage P data =
      (ConsoleLog (field msg ''type'') #
       (if field msg ''name'' = JStr ''add_effect_to_image'' \<and> truthy (field args ''effect'')
        then [SetImageEffect (field args ''effect''), SetTimeout 2000] else []) @
       [Send (JSON_stringify P (functionOutput P msg (field args ''effect''))),
        Send (JSON_stringify P response_create)], None)"
    using assms by (simp add: onmessage_function_call function_call_done_returned)
  then show ?thesis
    by (simp add: step_def effects_of_def functionOutput_def response_create_def
        side_effects_def)
qed

theorem function_call_acknowledged_witness:
  "JSON_parse demo_platform weather_call_text = Inr weather_call \<and>
   field weather_call ''type'' = JStr ''response.function_call_arguments.done'' \<and>
   field weather_call ''name'' = JStr ''get_weather'' \<and>
   ToString demo_platform (field weather_call ''arguments'') = Inr ''{}'' \<and>
   JSON_parse demo_platform ''{}'' = Inr (JObj []) \<and>
   \<not> nullish (JObj []) \<and>
   sent (fst (onmessage demo_platform weather_call_text)) =
     [JSON_stringify demo_platform
        (JObj [(''type'', JStr ''conversation.item.create''),
               (''item'',
                JObj [(''type'', JStr ''function_call_output''),
                      (''call_id'', JStr ''call_3''),
                      (''output'',
                       JStr (JSON_stringify demo_platform
                         (JObj [(''success'', JBool True), (''effect'', JUndefined)])))])]),
      JSON_stringify demo_platform (JObj [(''type'', JStr ''response.create'')])] \<and>
   step demo_platform (Message weather_call_text) initial = Inr initial"
proof -
  have p1: "JSON_parse demo_platform weather_call_text = Inr weather_call"
    by (simp add: demo_platform_def demo_parse_def demo_texts)
  have p2: "JSON_parse demo_platform ''{}'' = Inr (JObj [])"
    by (simp add: demo_platform_def demo_parse_def demo_texts)
  have f: "field weather_call ''type'' = JStr ''response.function_call_arguments.done''"
    "field weather_call ''name'' = JStr ''get_weather''"
    "field weather_call ''call_id'' = JStr ''call_3''"
    "ToString demo_platform (field weather_call ''arguments'') = Inr ''{}''"
    by (simp_all add: weather_call_def demo_platform_def)
  have n: "\<not> nullish (JObj [])" by simp
  show ?thesis
    using function_call_acknowledged [OF p1 f(1) f(4) p2 n, of initial] p1 p2 f
    by simp
qed

subsection \<open>The dispatch on the message type\<close>

text \<open>
  Claim C4, as stated, fails: handling a tool call performs four side effects (a state
  update, a timer and two sends), and a \<open>response.done\<close> message without a transcript
  performs none. Console output is not counted.
\<close>

theorem several_side_effects_for_tool_call:
  "JSON_parse demo_platform sparkle_call_text = Inr sparkle_call \<and>
   field sparkle_call ''type'' = JStr ''response.function_call_arguments.done'' \<and>
   side_effects (fst (onmessage demo_platform sparkle_call_text)) =
     [SetImageEffect (JStr ''sparkle''), SetTimeout 2000,
      Send (JSON_stringify demo_platform
              (functionOutput demo_platform sparkle_call (JStr ''sparkle''))),
      Send (JSON_stringify demo_platform response_create)] \<and>
   length (side_effects (fst (onmessage demo_platform sparkle_call_text))) \<noteq> 1 \<and>
   JSON_parse demo_platform empty_response_text = Inr empty_response \<and>
   field empty_response ''type'' = JStr ''response.done'' \<and>
   length (side_effects (fst (onmessage demo_platform empty_response_text))) \<noteq> 1"
proof -
  have p1: "JSON_parse demo_platform sparkle_call_text = Inr sparkle_call"
    by (simp add: demo_platform_def demo_parse_def)
  have p2: "JSON_parse demo_platform sparkle_args_text = Inr (JObj [(''effect'', JStr ''sparkle'')])"
    by (simp add: demo_platform_def demo_parse_def demo_texts)
  have p3: "JSON_parse demo_platform empty_response_text = Inr empty_response"
    by (simp add: demo_platform_def demo_parse_def demo_texts)
  have f: "field sparkle_call ''type'' = JStr ''response.function_call_arguments.done''"
    "field sparkle_call ''name'' = JStr ''add_effect_to_image''"
    "ToString demo_platform (field sparkle_call ''arguments'') = Inr sparkle_args_text"
    by (simp_all add: sparkle_call_def demo_platform_def)
  have g: "field empty_response ''type'' = JStr ''response.done''" "\<not> nullish empty_response"
    "response_done empty_response = []"
    by (simp_all add: empty_response_def response_done_def opt_field_def opt_index0_def)
  have a: "side_effects (fst (onmessage demo_platform sparkle_call_text)) =
     [SetImageEffect (JStr ''sparkle''), SetTimeout 2000,
      Send (JSON_stringify demo_platform
              (functionOutput demo_platform sparkle_call (JStr ''sparkle''))),
      Send (JSON_stringify demo_platform response_create)]"
    using p1 p2 f
    by (simp add: onmessage_function_call function_call_done_returned side_effects_simps)
  have b: "side_effects (fst (onmessage demo_platform empty_response_text)) = []"
    using p3 g by (simp add: onmessage_other_type side_effects_simps)
  from a b p1 p3 f g show ?thesis by simp
qed

text \<open>
  Claim C4, amended. The dispatch is a flat chain of comparisons of the message type
  with string constants. Five of the types perform exactly one side effect, a single
  state-setter call. \<open>response.done\<close> performs exactly one, appending the \<open>AI: \<close> line,
  when the transcript it carries is truthy, and none otherwise.
  \<open>response.function_call_arguments.done\<close> performs no side effect when an exception
  is thrown, which happens exactly when the arguments do not convert to a string, are
  not JSON, or parse to \<open>null\<close>; otherwise it performs the two sends, preceded by
  \<open>setImageEffect(args.effect)\<close> and its timer exactly when the name is
  \<open>add_effect_to_image\<close> and \<open>args.effect\<close> is truthy.
\<close>

theorem side_effects_per_message_type:
  assumes "JSON_parse P data = Inr msg" and "field msg ''type'' = JStr t"
  shows "(t = ''session.created'' \<longrightarrow>
            side_effects (fst (onmessage P data)) = [SetAIState listening]) \<and>
         (t = ''response.audio.delta'' \<longrightarrow>
            side_effects (fst (onmessage P data)) = [SetAIState speaking]) \<and>
         (t = ''response.audio.done'' \<longrightarrow>
            side_effects (fst (onmessage P data)) = [SetAIState listening]) \<and>
         (t = ''input_audio_buffer.speech_started'' \<longrightarrow>
            side_effects (fst (onmessage P data)) = [SetAIState listening]) \<and>
         (t = ''conversation.item.input_audio_transcription.completed'' \<longrightarrow>
            side_effects (fst (onmessage P data)) =
              [AppendTranscript ''You: '' (field msg ''transcript'')]) \<and>
         (t = ''response.done'' \<longrightarrow>
            (\<forall>v. v = opt_field (opt_index0 (opt_field (opt_index0
                     (opt_field (field msg ''response'') ''output'')) ''content''))
                     ''transcript'' \<longrightarrow>
               (truthy v \<longrightarrow>
                  side_effects (fst (onmessage P data)) = [AppendTranscript ''AI: '' v]) \<and>
               (\<not> truthy v \<longrightarrow> side_effects (fst (onmessage P data)) = []))) \<and>
         (t = ''response.function_call_arguments.done'' \<longrightarrow>
            (\<forall>err. ToString P (field msg ''arguments'') = Inl err \<longrightarrow>
               snd (onmessage_try P data) = Some err \<and>
               side_effects (fst (onmessage P data)) = []) \<and>
            (\<forall>s err. ToString P (field msg ''arguments'') = Inr s \<longrightarrow>
               JSON_parse P s = Inl err \<longrightarrow>
               snd (onmessage_try P data) = Some err \<and>
               side_effects (fst (onmessage P data)) = []) \<and>
            (\<forall>s args. ToString P (field msg ''arguments'') = Inr s \<longrightarrow>
               JSON_parse P s = Inr args \<longrightarrow> nullish args \<longrightarrow>
               snd (onmessage_try P data) = Some TypeError \<and>
               side_effects (fst (onmessage P data)) = []) \<and>
            (\<forall>s args. ToString P (field msg ''arguments'') = Inr s \<longrightarrow>
               JSON_parse P s = Inr args \<longrightarrow> \<not> nullish args \<longrightarrow>
               snd (onmessage_try P data) = None \<and>
               side_effects (fst (onmessage P data)) =
                 (if field msg ''name'' = JStr ''add_effect_to_image'' \<and>
                     truthy (field args ''effect'')
                  then [SetImageEffect (field args ''effect''), SetTimeout 2000] else []) @
                 [Send (JSON_stringify P (functionOutput P msg (field args ''effect''))),
                  Send (JSON_stringify P response_create)]))"
proof -
  from assms(2) have nn: "\<not> nullish msg" by (cases msg) auto
  have try_call: "onmessage_try P data =
      (case function_call_done P msg of (es, r) \<Rightarrow> (ConsoleLog (field msg ''type'') # es, r))"
    if "t = ''response.function_call_arguments.done''"
    using that assms nn by (simp add: onmessage_try_def get_def)
  have thrown: "snd (onmessage_try P data) = Some err \<and>
      side_effects (fst (onmessage P data)) = []"
    if "t = ''response.function_call_arguments.done''"
      and "function_call_done P msg = ([], Some err)" for err
    using that assms try_call
    by (simp add: onmessage_function_call side_effects_simps)
  have other: "onmessage P data =
     (ConsoleLog (field msg ''type'') #
      (if field msg ''type'' = JStr ''session.created'' then [SetAIState listening]
       else if field msg ''type'' = JStr ''response.audio.delta'' then [SetAIState speaking]
       else if field msg ''type'' = JStr ''response.audio.done'' then [SetAIState listening]
       else if field msg ''type'' = JStr ''input_audio_buffer.speech_started''
         then [SetAIState listening]
       else if field msg ''type'' =
           JStr ''conversation.item.input_audio_transcription.completed''
         then [AppendTranscript ''You: '' (field msg ''transcript'')]
       else if field msg ''type'' = JStr ''response.done'' then response_done msg
       else []), None)"
    if "t \<noteq> ''response.function_call_arguments.done''"
    using that assms nn by (intro onmessage_other_type) simp_all
  show ?thesis
  proof (intro conjI impI allI)
    fix err
    assume t: "t = ''response.function_call_arguments.done''"
      and "ToString P (field msg ''arguments'') = Inl err"
    then have "function_call_done P msg = ([], Some err)"
      by (simp add: function_call_done_def)
    with t thrown show "snd (onmessage_try P data) = Some err"
      "side_effects (fst (onmessage P data)) = []"
      by blast+
  next
    fix s err
    assume t: "t = ''response.function_call_arguments.done''"
      and "ToString P (field msg ''arguments'') = Inr s" "JSON_parse P s = Inl err"
    then have "function_call_done P msg = ([], Some err)"
      by (simp add: function_call_done_def)
    with t thrown show "snd (onmessage_try P data) = Some err"
      "side_effects (fst (onmessage P data)) = []"
      by blast+
  next
    fix s args
    assume t: "t = ''response.function_call_arguments.done''"
      and "ToString P (field msg ''arguments'') = Inr s" "JSON_parse P s = Inr args"
      "nullish args"
    then have "function_call_done P msg = ([], Some TypeError)"
      by (simp add: function_call_done_def get_def)
    with t thrown show "snd (onmessage_try P data) = Some TypeError"
      "side_effects (fst (onmessage P data)) = []"
      by blast+
  next
    fix s args
    assume t: "t = ''response.function_call_arguments.done''"
      and a: "ToString P (field msg ''arguments'') = Inr s" "JSON_parse P s = Inr args"
      "\<not> nullish args"
    then have fc: "function_call_done P msg =
     ((if field msg ''name'' = JStr ''add_effect_to_image'' \<and> truthy (field args ''effect'')
       then [SetImageEffect (field args ''effect''), SetTimeout 2000] else []) @
      [Send (JSON_stringify P (functionOutput P msg (field args ''effect''))),
       Send (JSON_stringify P response_create)], None)"
      by (simp add: function_call_done_returned)
    with t try_call show "snd (onmessage_try P data) = None" by simp
    from fc t assms show "side_effects (fst (onmessage P data)) =
                 (if field msg ''name'' = JStr ''add_effect_to_image'' \<and>
                     truthy (field args ''effect'')
                  then [SetImageEffect (field args ''effect''), SetTimeout 2000] else []) @
                 [Send (JSON_stringify P (functionOutput P msg (field args ''effect''))),
                  Send (JSON_stringify P response_create)]"
      by (simp add: onmessage_function_call side_effects_simps)
  next
    fix v
    assume t: "t = ''response.done''"
      and v: "v = opt_field (opt_index0 (opt_field (opt_index0
                     (opt_field (field msg ''response'') ''output'')) ''content''))
                     ''transcript''"
    {
      assume "truthy v"
      with t v other assms
      show "side_effects (fst (onmessage P data)) = [AppendTranscript ''AI: '' v]"
        by (simp add: response_done_def side_effects_simps)
    }
    {
      assume "\<not> truthy v"
      with t v other assms show "side_effects (fst (onmessage P data)) = []"
        by (simp add: response_done_def side_effects_simps)
    }
  qed (use other assms in \<open>simp_all add: side_effects_simps\<close>)
qed

theorem side_effects_per_message_type_witness:
  "JSON_parse demo_platform user_line_text = Inr user_line \<and>
   field user_line ''type'' =
     JStr ''conversation.item.input_audio_transcription.completed'' \<and>
   side_effects (fst (onmessage demo_platform user_line_text)) =
     [AppendTranscript ''You: '' (JStr ''I see balloons'')] \<and>
   JSON_parse demo_platform ai_line_text = Inr ai_line \<and>
   field ai_line ''type'' = JStr ''response.done'' \<and>
   opt_field (opt_index0 (opt_field (opt_index0
     (opt_field (field ai_line ''response'') ''output'')) ''content'')) ''transcript'' =
     JStr ''Look at the balloons'' \<and>
   truthy (JStr ''Look at the balloons'') \<and>
   side_effects (fst (onmessage demo_platform ai_line_text)) =
     [AppendTranscript ''AI: '' (JStr ''Look at the balloons'')] \<and>
   JSON_parse demo_platform empty_response_text = Inr empty_response \<and>
   field empty_response ''type'' = JStr ''response.done'' \<and>
   \<not> truthy (opt_field (opt_index0 (opt_field (opt_index0
     (opt_field (field empty_response ''response'') ''output'')) ''content'')) ''transcript'') \<and>
   side_effects (fst (onmessage demo_platform empty_response_text)) = [] \<and>
   JSON_parse demo_platform sparkle_call_text = Inr sparkle_call \<and>
   field sparkle_call ''type'' = JStr ''response.function_call_arguments.done'' \<and>
   ToString demo_platform (field sparkle_call ''arguments'') = Inr sparkle_args_text \<and>
   JSON_parse demo_platform sparkle_args_text = Inr (JObj [(''effect'', JStr ''sparkle'')]) \<and>
   \<not> nullish (JObj [(''effect'', JStr ''sparkle'')]) \<and>
   side_effects (fst (onmessage demo_platform sparkle_call_text)) =
     [SetImageEffect (JStr ''sparkle''), SetTimeout 2000,
      Send (JSON_stringify demo_platform
              (functionOutput demo_platform sparkle_call (JStr ''sparkle''))),
      Send (JSON_stringify demo_platform response_create)] \<and>
   JSON_parse demo_platform null_call_text = Inr null_call \<and>
   field null_call ''type'' = JStr ''response.function_call_arguments.done'' \<and>
   ToString demo_platform (field null_call ''arguments'') = Inr ''null'' \<and>
   JSON_parse demo_platform ''null'' = Inr JNull \<and> nullish JNull \<and>
   side_effects (fst (onmessage demo_platform null_call_text)) = []"
proof -
  have p1: "JSON_parse demo_platform user_line_text = Inr user_line"
    by (simp add: demo_platform_def demo_parse_def demo_texts)
  have p2: "JSON_parse demo_platform ai_line_text = Inr ai_line"
    by (simp add: demo_platform_def demo_parse_def demo_texts)
  have p3: "JSON_parse demo_platform empty_response_text = Inr empty_response"
    by (simp add: demo_platform_def demo_parse_def demo_texts)
  have p4: "JSON_parse demo_platform sparkle_call_text = Inr sparkle_call"
    by (simp add: demo_platform_def demo_parse_def)
  have p5: "JSON_parse demo_platform sparkle_args_text = Inr (JObj [(''effect'', JStr ''sparkle'')])"
    by (simp add: demo_platform_def demo_parse_def demo_texts)
  have p6: "JSON_parse demo_platform null_call_text = Inr null_call"
    by (simp add: demo_platform_def demo_parse_def demo_texts)
  have p7: "JSON_parse demo_platform ''null'' = Inr JNull"
    by (simp add: demo_platform_def demo_parse_def demo_texts)
  have f: "field user_line ''type'' =
       JStr ''conversation.item.input_audio_transcription.completed''"
    "field user_line ''transcript'' = JStr ''I see balloons''"
    "field ai_line ''type'' = JStr ''response.done''"
    "field empty_response ''type'' = JStr ''response.done''"
    "field sparkle_call ''type'' = JStr ''response.function_call_arguments.done''"
    "field sparkle_call ''name'' = JStr ''add_effect_to_image''"
    "ToString demo_platform (field sparkle_call ''arguments'') = Inr sparkle_args_text"
    "field null_call ''type'' = JStr ''response.function_call_arguments.done''"
    "ToString demo_platform (field null_call ''arguments'') = Inr ''null''"
    by (simp_all add: user_line_def ai_line_def empty_response_def sparkle_call_def
        null_call_def demo_platform_def)
  have v: "opt_field (opt_index0 (opt_field (opt_index0
       (opt_field (field ai_line ''response'') ''output'')) ''content'')) ''transcript'' =
       JStr ''Look at the balloons''"
    "opt_field (opt_index0 (opt_field (opt_index0
       (opt_field (field empty_response ''response'') ''output'')) ''content''))
       ''transcript'' = JUndefined"
    by (simp_all add: ai_line_def empty_response_def opt_field_def opt_index0_def)
  have e: "field (JObj [(''effect'', JStr ''sparkle'')]) ''effect'' = JStr ''sparkle''"
    "\<not> nullish (JObj [(''effect'', JStr ''sparkle'')])" "nullish JNull"
    by simp_all
  show ?thesis
    using side_effects_per_message_type [OF p1 f(1)]
      side_effects_per_message_type [OF p2 f(3)]
      side_effects_per_message_type [OF p3 f(4)]
      side_effects_per_message_type [OF p4 f(5)]
      side_effects_per_message_type [OF p6 f(8)]
      p1 p2 p3 p4 p5 p6 p7 f v e
    by simp
qed

text \<open>
  Claim C5. The handler compares the message type with exactly seven strings, each of
  which has a branch that does something; a message (an object, or any value other
  than \<open>null\<close>) whose type is none of the seven leaves every state variable and ref
  as it is, and nothing is sent: the handler only logs the type.
\<close>

theorem other_message_types_change_nothing:
  "length message_types = 7 \<and> distinct message_types \<and>
   (\<forall>t\<in>set message_types. \<exists>P data msg.
       JSON_parse P data = Inr msg \<and> field msg ''type'' = JStr t \<and>
       side_effects (fst (onmessage P data)) \<noteq> []) \<and>
   (\<forall>P data msg c.
       JSON_parse P data = Inr msg \<longrightarrow> \<not> nullish msg \<longrightarrow>
       field msg ''type'' \<notin> JStr ` set message_types \<longrightarrow>
       onmessage P data = ([ConsoleLog (field msg ''type'')], None) \<and>
       side_effects (fst (onmessage P data)) = [] \<and>
       sent (fst (onmessage P data)) = [] \<and>
       step P (Message data) c = Inr c)"
proof (intro conjI ballI allI impI)
  show "length message_types = 7" by (simp add: message_types_def)
  show "distinct message_types" by (simp add: message_types_def)
next
  fix t assume "t \<in> set message_types"
  then show "\<exists>P data msg. JSON_parse P data = Inr msg \<and> field msg ''type'' = JStr t \<and>
       side_effects (fst (onmessage P data)) \<noteq> []"
    by (rule each_type_has_a_branch)
next
  fix P :: platform and data msg and c :: component
  assume a: "JSON_parse P data = Inr msg" "\<not> nullish msg"
    "field msg ''type'' \<notin> JStr ` set message_types"
  then have eq: "onmessage P data = ([ConsoleLog (field msg ''type'')], None)"
    by (simp add: onmessage_other_type message_types_def)
  then show "onmessage P data = ([ConsoleLog (field msg ''type'')], None)" .
  from eq show "side_effects (fst (onmessage P data)) = []"
    by (simp add: side_effects_simps)
  from eq show "sent (fst (onmessage P data)) = []" by simp
  from eq show "step P (Message data) c = Inr c"
    by (simp add: step_def effects_of_def)
qed

theorem other_message_types_change_nothing_witness:
  "JSON_parse demo_platform rate_limits_text = Inr rate_limits \<and>
   \<not> nullish rate_limits \<and>
   field rate_limits ''type'' = JStr ''rate_limits.updated'' \<and>
   ''rate_limits.updated'' \<notin> set message_types \<and>
   onmessage demo_platform rate_limits_text = ([ConsoleLog (JStr ''rate_limits.updated'')], None) \<and>
   sent (fst (onmessage demo_platform rate_limits_text)) = [] \<and>
   step demo_platform (Message rate_limits_text) initial = Inr initial"
proof -
  have p: "JSON_parse demo_platform rate_limits_text = Inr rate_limits"
    by (simp add: demo_platform_def demo_parse_def demo_texts)
  have f: "field rate_limits ''type'' = JStr ''rate_limits.updated''" "\<not> nullish rate_limits"
    by (simp_all add: rate_limits_def)
  have n: "''rate_limits.updated'' \<notin> set message_types"
    by (simp add: message_types_def)
  then have n': "field rate_limits ''type'' \<notin> JStr ` set message_types"
    using f by auto
  from other_message_types_change_nothing
  have "onmessage demo_platform rate_limits_text =
          ([ConsoleLog (field rate_limits ''type'')], None) \<and>
        side_effects (fst (onmessage demo_platform rate_limits_text)) = [] \<and>
        sent (fst (onmessage demo_platform rate_limits_text)) = [] \<and>
        step demo_platform (Message rate_limits_text) initial = Inr initial"
    using p f(2) n' by blast
  with p f n show ?thesis by simp
qed

subsection \<open>Stopping\<close>

text \<open>
  Claim C8. \<open>stopConversation\<close> is idempotent. After one call the four refs are
  \<open>null\<close>, \<open>aiState\<close> is idle, \<open>isActive\<close> is false and \<open>timeRemaining\<close> is
  \<open>CONVERSATION_DURATION\<close>; a second call closes nothing, sets the three state variables
  to the values they have, and so leaves the state as the first call left it.
\<close>

theorem stopConversation_idempotent:
  "\<exists>c1. step P StopClicked c = Inr c1 \<and>
     pcRef c1 = None \<and> dataChannelRef c1 = None \<and> audioElementRef c1 = None \<and>
     timerRef c1 = None \<and> aiState c1 = idle \<and> isActive c1 = False \<and>
     timeRemaining c1 = CONVERSATION_DURATION \<and>
     stopConversation c1 =
       [SetAIState idle, SetIsActive False, SetTimeRemaining CONVERSATION_DURATION] \<and>
     step P StopClicked c1 = Inr c1 \<and>
     run P [StopClicked, StopClicked] c = run P [StopClicked] c"
  by (simp add: step_StopClicked stopConversation_def)

theorem stopConversation_idempotent_witness:
  "\<exists>c1. step demo_platform StopClicked
          (initial\<lparr>aiState := listening, isActive := True, timeRemaining := 42,
                  pcRef := Some 1, dataChannelRef := Some 2, audioElementRef := Some 3,
                  timerRef := Some 4\<rparr>) = Inr c1 \<and>
     pcRef c1 = None \<and> dataChannelRef c1 = None \<and> audioElementRef c1 = None \<and>
     timerRef c1 = None \<and> aiState c1 = idle \<and> isActive c1 = False \<and>
     timeRemaining c1 = CONVERSATION_DURATION \<and>
     stopConversation c1 =
       [SetAIState idle, SetIsActive False, SetTimeRemaining CONVERSATION_DURATION] \<and>
     step demo_platform StopClicked c1 = Inr c1 \<and>
     run demo_platform [StopClicked, StopClicked]
          (initial\<lparr>aiState := listening, isActive := True, timeRemaining := 42,
                  pcRef := Some 1, dataChannelRef := Some 2, audioElementRef := Some 3,
                  timerRef := Some 4\<rparr>) =
     run demo_platform [StopClicked]
          (initial\<lparr>aiState := listening, isActive := True, timeRemaining := 42,
                  pcRef := Some 1, dataChannelRef := Some 2, audioElementRef := Some 3,
                  timerRef := Some 4\<rparr>)"
  by (rule stopConversation_idempotent)

subsection \<open>Opening the data channel\<close>

text \<open>
  Claim C6. Turn detection is left to the server. The first message sent when the data
  channel opens is a \<open>session.update\<close> whose session sets \<open>turn_detection\<close> to
  \<open>{type: 'server_vad'}\<close> and \<open>input_audio_transcription\<close> to \<open>{model: 'whisper-1'}\<close>;
  opening the channel changes no state. The client detects no speech itself: no event
  other than a message from the service brings \<open>aiState\<close> to a value other than the
  one it had, idle or connecting.
\<close>

theorem turn_detection_is_server_side:
  "sent (onopen P) =
     [JSON_stringify P initialMessage, JSON_stringify P conversationItem,
      JSON_stringify P (JObj [(''type'', JStr ''response.create'')])] \<and>
   field initialMessage ''type'' = JStr ''session.update'' \<and>
   field (field initialMessage ''session'') ''turn_detection'' =
     JObj [(''type'', JStr ''server_vad'')] \<and>
   field (field initialMessage ''session'') ''input_audio_transcription'' =
     JObj [(''model'', JStr ''whisper-1'')] \<and>
   step P ChannelOpen c = Inr c \<and>
   (\<forall>ev c c'. (\<forall>data. ev \<noteq> Message data) \<longrightarrow> step P ev c = Inr c' \<longrightarrow>
      aiState c' = aiState c \<or> aiState c' = idle \<or> aiState c' = connecting)"
proof (intro conjI allI impI)
  show "sent (onopen P) =
     [JSON_stringify P initialMessage, JSON_stringify P conversationItem,
      JSON_stringify P (JObj [(''type'', JStr ''response.create'')])]"
    by (simp add: onopen_def response_create_def)
  show "field initialMessage ''type'' = JStr ''session.update''"
    by (simp add: initialMessage_def)
  show "field (field initialMessage ''session'') ''turn_detection'' =
     JObj [(''type'', JStr ''server_vad'')]"
    by (simp add: initialMessage_def)
  show "field (field initialMessage ''session'') ''input_audio_transcription'' =
     JObj [(''model'', JStr ''whisper-1'')]"
    by (simp add: initialMessage_def)
  show "step P ChannelOpen c = Inr c" by (rule step_ChannelOpen)
next
  fix ev and c c' :: component
  assume nm: "\<forall>data. ev \<noteq> Message data" and st: "step P ev c = Inr c'"
  show "aiState c' = aiState c \<or> aiState c' = idle \<or> aiState c' = connecting"
  proof (cases ev)
    case (StartStep env n)
    with st step_StartStep_frame [of P env n c c'] show ?thesis by blast
  next
    case (Message data)
    with nm show ?thesis by simp
  qed (use st in \<open>auto simp: step_StartClicked step_StopClicked step_Tick step_TimerHook
         step_ChannelOpen step_EffectTimeout split: if_splits\<close>)
qed

theorem turn_detection_is_server_side_witness:
  "(\<forall>data. StopClicked \<noteq> Message data) \<and>
   step demo_platform StopClicked (initial\<lparr>aiState := listening\<rparr>) = Inr initial \<and>
   (aiState initial = aiState (initial\<lparr>aiState := listening\<rparr>) \<or> aiState initial = idle \<or>
    aiState initial = connecting) \<and>
   sent (onopen demo_platform) =
     [JSON_stringify demo_platform initialMessage, JSON_stringify demo_platform conversationItem,
      JSON_stringify demo_platform (JObj [(''type'', JStr ''response.create'')])]"
proof -
  have n: "\<forall>data. StopClicked \<noteq> Message data" by simp
  have s: "step demo_platform StopClicked (initial\<lparr>aiState := listening\<rparr>) = Inr initial"
    by (simp add: step_StopClicked initial_def)
  from turn_detection_is_server_side [of demo_platform initial] n s
  have "aiState initial = aiState (initial\<lparr>aiState := listening\<rparr>) \<or> aiState initial = idle \<or>
    aiState initial = connecting"
    by blast
  moreover from turn_detection_is_server_side [of demo_platform initial]
  have "sent (onopen demo_platform) =
     [JSON_stringify demo_platform initialMessage, JSON_stringify demo_platform conversationItem,
      JSON_stringify demo_platform (JObj [(''type'', JStr ''response.create'')])]"
    by blast
  ultimately show ?thesis using n s by blast
qed

subsection \<open>The transcript\<close>

text \<open>
  Claim C7. The transcript is append-only during a session. \<open>startConversation\<close>
  resets it to the empty list; every other event leaves it as it is or appends one
  line, which begins with \<open>You: \<close> or with \<open>AI: \<close>; no line is reordered or removed.
  The \<open>You: \<close> line is appended on
  \<open>conversation.item.input_audio_transcription.completed\<close>, the \<open>AI: \<close> line on
  \<open>response.done\<close> when a transcript is present, and a message of any other type
  leaves the transcript alone.
\<close>

theorem transcript_append_only:
  "(\<forall>c. \<exists>c'. step P StartClicked c = Inr c' \<and> transcript c' = []) \<and>
   (\<forall>ev c c'. ev \<noteq> StartClicked \<longrightarrow> step P ev c = Inr c' \<longrightarrow>
      transcript c' = transcript c \<or>
      (\<exists>s. transcript c' = transcript c @ [''You: '' @ s]) \<or>
      (\<exists>s. transcript c' = transcript c @ [''AI: '' @ s])) \<and>
   (\<forall>data msg s c.
      JSON_parse P data = Inr msg \<longrightarrow>
      field msg ''type'' = JStr ''conversation.item.input_audio_transcription.completed'' \<longrightarrow>
      ToString P (field msg ''transcript'') = Inr s \<longrightarrow>
      step P (Message data) c = Inr (c\<lparr>transcript := transcript c @ [''You: '' @ s]\<rparr>)) \<and>
   (\<forall>data msg v s c.
      JSON_parse P data = Inr msg \<longrightarrow> field msg ''type'' = JStr ''response.done'' \<longrightarrow>
      v = opt_field (opt_index0 (opt_field (opt_index0
            (opt_field (field msg ''response'') ''output'')) ''content'')) ''transcript'' \<longrightarrow>
      (truthy v \<longrightarrow> ToString P v = Inr s \<longrightarrow>
         step P (Message data) c = Inr (c\<lparr>transcript := transcript c @ [''AI: '' @ s]\<rparr>)) \<and>
      (\<not> truthy v \<longrightarrow> step P (Message data) c = Inr c)) \<and>
   (\<forall>data msg c c'.
      JSON_parse P data = Inr msg \<longrightarrow>
      field msg ''type'' \<noteq> JStr ''conversation.item.input_audio_transcription.completed'' \<longrightarrow>
      field msg ''type'' \<noteq> JStr ''response.done'' \<longrightarrow>
      step P (Message data) c = Inr c' \<longrightarrow> transcript c' = transcript c)"
proof (intro conjI allI impI)
  fix c :: component
  show "\<exists>c'. step P StartClicked c = Inr c' \<and> transcript c' = []"
    by (simp add: step_StartClicked)
next
  fix ev and c c' :: component
  assume ns: "ev \<noteq> StartClicked" and st: "step P ev c = Inr c'"
  show "transcript c' = transcript c \<or>
      (\<exists>s. transcript c' = transcript c @ [''You: '' @ s]) \<or>
      (\<exists>s. transcript c' = transcript c @ [''AI: '' @ s])"
  proof (cases ev)
    case StartClicked
    with ns show ?thesis by simp
  next
    case (StartStep env n)
    with st step_StartStep_frame [of P env n c c'] show ?thesis by blast
  next
    case (Message data)
    with st step_Message_cases [of P data c c'] show ?thesis by auto
  qed (use st in \<open>auto simp: step_StopClicked step_Tick step_TimerHook
         step_ChannelOpen step_EffectTimeout split: if_splits\<close>)
next
  fix data msg s and c :: component
  assume "JSON_parse P data = Inr msg"
    and t: "field msg ''type'' = JStr ''conversation.item.input_audio_transcription.completed''"
    and "ToString P (field msg ''transcript'') = Inr s"
  moreover from t have "\<not> nullish msg" by (cases msg) auto
  ultimately show "step P (Message data) c =
      Inr (c\<lparr>transcript := transcript c @ [''You: '' @ s]\<rparr>)"
    by (simp add: onmessage_other_type step_def effects_of_def)
next
  fix data msg v s and c :: component
  assume p: "JSON_parse P data = Inr msg" and t: "field msg ''type'' = JStr ''response.done''"
    and v: "v = opt_field (opt_index0 (opt_field (opt_index0
            (opt_field (field msg ''response'') ''output'')) ''content'')) ''transcript''"
  from t have nn: "\<not> nullish msg" by (cases msg) auto
  {
    assume "truthy v" and "ToString P v = Inr s"
    with p t v nn show "step P (Message data) c =
        Inr (c\<lparr>transcript := transcript c @ [''AI: '' @ s]\<rparr>)"
      by (simp add: onmessage_other_type step_def effects_of_def response_done_def)
  }
  {
    assume "\<not> truthy v"
    with p t v nn show "step P (Message data) c = Inr c"
      by (simp add: onmessage_other_type step_def effects_of_def response_done_def)
  }
next
  fix data msg and c c' :: component
  assume p: "JSON_parse P data = Inr msg"
    and t1: "field msg ''type'' \<noteq> JStr ''conversation.item.input_audio_transcription.completed''"
    and t2: "field msg ''type'' \<noteq> JStr ''response.done''"
    and st: "step P (Message data) c = Inr c'"
  show "transcript c' = transcript c"
  proof (cases "nullish msg")
    case True
    with p have "onmessage P data = ([ConsoleError TypeError], None)"
      by (simp add: onmessage_def onmessage_try_def get_def)
    with st show ?thesis by (simp add: step_def effects_of_def)
  next
    case nn: False
    show ?thesis
    proof (cases "field msg ''type'' = JStr ''response.function_call_arguments.done''")
      case True
      have "\<forall>e\<in>set (fst (onmessage P data)).
            (\<exists>v. e = SetImageEffect v) \<or> (\<exists>n. e = SetTimeout n) \<or> (\<exists>s. e = Send s) \<or>
            is_console e"
        using function_call_done_effects [of P msg] p True
        by (cases "function_call_done P msg")
          (auto simp: onmessage_function_call split: option.splits)
      from perform_all_frame [OF this, of P c] st
      have "c' = c\<lparr>imageEffect := imageEffect c'\<rparr>"
        by (auto simp: step_def effects_of_def)
      then have "transcript c' = transcript (c\<lparr>imageEffect := imageEffect c'\<rparr>)"
        by (rule arg_cong)
      then show ?thesis by simp
    next
      case False
      with p nn t1 t2 st show ?thesis
        by (auto simp: onmessage_other_type step_def effects_of_def split: if_splits)
    qed
  qed
qed

theorem transcript_append_only_witness:
  "JSON_parse demo_platform user_line_text = Inr user_line \<and>
   field user_line ''type'' = JStr ''conversation.item.input_audio_transcription.completed'' \<and>
   ToString demo_platform (field user_line ''transcript'') = Inr ''I see balloons'' \<and>
   Message user_line_text \<noteq> StartClicked \<and>
   step demo_platform (Message user_line_text) initial =
     Inr (initial\<lparr>transcript := [''You: I see balloons'']\<rparr>)"
proof -
  have p: "JSON_parse demo_platform user_line_text = Inr user_line"
    by (simp add: demo_platform_def demo_parse_def demo_texts)
  have f: "field user_line ''type'' =
       JStr ''conversation.item.input_audio_transcription.completed''"
    "ToString demo_platform (field user_line ''transcript'') = Inr ''I see balloons''"
    by (simp_all add: user_line_def demo_platform_def)
  from transcript_append_only [of demo_platform] p f
  have "step demo_platform (Message user_line_text) initial =
     Inr (initial\<lparr>transcript := transcript initial @ [''You: '' @ ''I see balloons'']\<rparr>)"
    by blast
  with p f show ?thesis by (simp add: initial_def)
qed

subsection \<open>Starting\<close>

text \<open>
  Claim C3. No exception leaves \<open>startConversation\<close>. Whenever a step of its \<open>try\<close>
  block throws, the \<open>catch\<close> clause runs last: it logs the exception and sets
  \<open>aiState\<close> to idle and \<open>isActive\<close> to false, on whatever state the component is in
  by then. In particular a bootstrap response that is not ok throws, and when the
  body is read and its message converts to a string, what is thrown is an \<open>Error\<close>
  with \<open>data.error\<close>, or \<open>Failed to create session\<close>, as its message.
\<close>

theorem startConversation_catches:
  "snd (startConversation P env) = None \<and>
   (\<forall>err. snd (startConversation_try P env) = Some err \<longrightarrow>
      (\<exists>es. fst (startConversation P env) =
              es @ [ConsoleError err, SetAIState idle, SetIsActive False]) \<and>
      (\<forall>c. perform_all P [ConsoleError err, SetAIState idle, SetIsActive False] c =
              Inr (c\<lparr>aiState := idle, isActive := False\<rparr>)) \<and>
      (\<forall>c. \<exists>c'. perform_all P (fst (startConversation P env)) c = Inr c' \<and>
              aiState c' = idle \<and> isActive c' = False)) \<and>
   (\<forall>resp. fetch_session env = Inr resp \<longrightarrow> \<not> ok resp \<longrightarrow>
      (\<exists>err. snd (startConversation_try P env) = Some err)) \<and>
   (\<forall>resp data m s. fetch_session env = Inr resp \<longrightarrow> \<not> ok resp \<longrightarrow>
      json resp = Inr data \<longrightarrow> get data ''error'' = Inr m \<longrightarrow>
      ToString P (if truthy m then m else JStr ''Failed to create session'') = Inr s \<longrightarrow>
      snd (startConversation_try P env) = Some (Error s))"
proof (intro conjI allI impI)
  show "snd (startConversation P env) = None"
    by (simp add: startConversation_def split: prod.splits option.splits)
next
  fix err assume thrown: "snd (startConversation_try P env) = Some err"
  then have a: "snd (start_async_try P env) = Some err"
    by (simp add: startConversation_try_def split: prod.splits)
  then have eq: "fst (startConversation P env) =
      (start_sync @ fst (start_async_try P env)) @
      [ConsoleError err, SetAIState idle, SetIsActive False]"
    by (simp add: startConversation_fst)
  then show "\<exists>es. fst (startConversation P env) =
              es @ [ConsoleError err, SetAIState idle, SetIsActive False]"
    by blast
  fix c :: component
  show "perform_all P [ConsoleError err, SetAIState idle, SetIsActive False] c =
              Inr (c\<lparr>aiState := idle, isActive := False\<rparr>)"
    by simp
  obtain c1 where c1: "perform_all P start_sync c = Inr c1"
    by (simp add: start_sync_def)
  obtain c2 where c2: "perform_all P (fst (start_async_try P env)) c1 = Inr c2"
    using perform_all_start_later [OF start_async_try_effects] by blast
  from eq c1 c2 have "perform_all P (fst (startConversation P env)) c =
      Inr (c2\<lparr>aiState := idle, isActive := False\<rparr>)"
    by (simp add: perform_all_append)
  then show "\<exists>c'. perform_all P (fst (startConversation P env)) c = Inr c' \<and>
              aiState c' = idle \<and> isActive c' = False"
    by simp
next
  fix resp assume "fetch_session env = Inr resp" and "\<not> ok resp"
  then obtain err where "create_session P env = Inl err"
    using create_session_not_ok by blast
  then show "\<exists>err. snd (startConversation_try P env) = Some err"
    by (simp add: startConversation_try_def start_async_try_def)
next
  fix resp data m s
  assume "fetch_session env = Inr resp" "\<not> ok resp" "json resp = Inr data"
    "get data ''error'' = Inr m"
    "ToString P (if truthy m then m else JStr ''Failed to create session'') = Inr s"
  then have "create_session P env = Inl (Error s)"
    by (simp add: create_session_def)
  then show "snd (startConversation_try P env) = Some (Error s)"
    by (simp add: startConversation_try_def start_async_try_def)
qed

theorem startConversation_catches_witness:
  "fetch_session unauthorized_env =
     Inr \<lparr> ok = False, json = Inr (JObj [(''error'', JStr ''Unauthorized'')]) \<rparr> \<and>
   get (JObj [(''error'', JStr ''Unauthorized'')]) ''error'' = Inr (JStr ''Unauthorized'') \<and>
   ToString demo_platform (JStr ''Unauthorized'') = Inr ''Unauthorized'' \<and>
   snd (startConversation_try demo_platform unauthorized_env) = Some (Error ''Unauthorized'') \<and>
   snd (startConversation demo_platform unauthorized_env) = None \<and>
   (\<exists>c'. perform_all demo_platform (fst (startConversation demo_platform unauthorized_env))
           initial = Inr c' \<and> aiState c' = idle \<and> isActive c' = False)"
proof -
  have f: "fetch_session unauthorized_env =
     Inr \<lparr> ok = False, json = Inr (JObj [(''error'', JStr ''Unauthorized'')]) \<rparr>"
    by (simp add: unauthorized_env_def)
  have g: "get (JObj [(''error'', JStr ''Unauthorized'')]) ''error'' = Inr (JStr ''Unauthorized'')"
    by (simp add: get_def)
  have t: "ToString demo_platform (JStr ''Unauthorized'') = Inr ''Unauthorized''"
    by (simp add: demo_platform_def)
  have t': "ToString demo_platform
      (if truthy (JStr ''Unauthorized'') then JStr ''Unauthorized''
       else JStr ''Failed to create session'') = Inr ''Unauthorized''"
    using t by simp
  have k: "\<not> ok \<lparr> ok = False, json = Inr (JObj [(''error'', JStr ''Unauthorized'')]) \<rparr>"
    "json \<lparr> ok = False, json = Inr (JObj [(''error'', JStr ''Unauthorized'')]) \<rparr> =
       Inr (JObj [(''error'', JStr ''Unauthorized'')])"
    by simp_all
  note inst = startConversation_catches [of demo_platform unauthorized_env]
  from inst f k g t'
  have thrown: "snd (startConversation_try demo_platform unauthorized_env) =
      Some (Error ''Unauthorized'')"
    by blast
  with inst have "\<exists>c'. perform_all demo_platform
      (fst (startConversation demo_platform unauthorized_env)) initial = Inr c' \<and>
      aiState c' = idle \<and> isActive c' = False"
    by blast
  moreover from inst have "snd (startConversation demo_platform unauthorized_env) = None"
    by blast
  ultimately show ?thesis using f g t thrown by blast
qed

subsection \<open>The countdown\<close>

text \<open>
  Claim C2. The session is timed to one minute. \<open>startConversation\<close> sets
  \<open>timeRemaining\<close> to \<open>CONVERSATION_DURATION = 60\<close>; a firing of the timer with
  \<open>timeRemaining > 1\<close> decreases it by exactly 1; the firing at \<open>timeRemaining <= 1\<close>
  calls \<open>stopConversation\<close>, which ends the session; in every reachable state
  \<open>0 <= timeRemaining <= 60\<close> (and \<open>timeRemaining >= 1\<close> while the session is active);
  and a session, that is any sequence of events without another start, has at most 60
  firings of the timer. Sixty firings in a row after a start end the session.
\<close>

theorem session_lasts_sixty_ticks:
  "CONVERSATION_DURATION = 60 \<and>
   (\<forall>c. \<exists>c'. step P StartClicked c = Inr c' \<and> isActive c' \<and>
           timeRemaining c' = CONVERSATION_DURATION) \<and>
   (\<forall>b c. isActive c \<longrightarrow> 1 < timeRemaining c \<longrightarrow>
      step P (Tick b) c = Inr (c\<lparr>timeRemaining := timeRemaining c - 1\<rparr>)) \<and>
   (\<forall>b c. timeRemaining c \<le> 1 \<longrightarrow> set (stopConversation c) \<subseteq> set (tick b c)) \<and>
   (\<forall>b c. isActive c \<longrightarrow> 0 < timeRemaining c \<longrightarrow> timeRemaining c \<le> 1 \<longrightarrow>
      (\<exists>c'. step P (Tick b) c = Inr c' \<and> \<not> isActive c' \<and> aiState c' = idle \<and>
            pcRef c' = None \<and> dataChannelRef c' = None \<and> audioElementRef c' = None \<and>
            timerRef c' = None \<and>
            (timeRemaining c' = 0 \<or> timeRemaining c' = CONVERSATION_DURATION))) \<and>
   (\<forall>c. reachable P c \<longrightarrow>
      0 \<le> timeRemaining c \<and> timeRemaining c \<le> 60 \<and> (isActive c \<longrightarrow> 1 \<le> timeRemaining c)) \<and>
   (\<forall>c evs. reachable P c \<longrightarrow> StartClicked \<notin> set evs \<longrightarrow> ticks_fired P evs c \<le> 60) \<and>
   (\<forall>b c. isActive c \<longrightarrow> timeRemaining c = CONVERSATION_DURATION \<longrightarrow>
      (\<exists>c'. run P (replicate 60 (Tick b)) c = Inr c' \<and> \<not> isActive c'))"
proof (intro conjI allI impI)
  show "CONVERSATION_DURATION = 60" by (simp add: CONVERSATION_DURATION_def)
next
  fix c :: component
  show "\<exists>c'. step P StartClicked c = Inr c' \<and> isActive c' \<and>
           timeRemaining c' = CONVERSATION_DURATION"
    by (simp add: step_StartClicked)
next
  fix b and c :: component
  assume "isActive c" "1 < timeRemaining c"
  then show "step P (Tick b) c = Inr (c\<lparr>timeRemaining := timeRemaining c - 1\<rparr>)"
    by (simp add: step_Tick)
next
  fix b and c :: component
  assume "timeRemaining c \<le> 1"
  then show "set (stopConversation c) \<subseteq> set (tick b c)"
    by (auto simp: tick_def)
next
  fix b and c :: component
  assume a: "isActive c" "0 < timeRemaining c" "timeRemaining c \<le> 1"
  from a show "\<exists>c'. step P (Tick b) c = Inr c' \<and> \<not> isActive c' \<and> aiState c' = idle \<and>
            pcRef c' = None \<and> dataChannelRef c' = None \<and> audioElementRef c' = None \<and>
            timerRef c' = None \<and>
            (timeRemaining c' = 0 \<or> timeRemaining c' = CONVERSATION_DURATION)"
    by (simp add: step_Tick)
next
  fix c assume "reachable P c"
  then have inv: "timer_invariant c" by (rule reachable_timer_invariant)
  then show "0 \<le> timeRemaining c" "timeRemaining c \<le> 60"
    by (simp_all add: timer_invariant_def CONVERSATION_DURATION_def)
  from inv show "1 \<le> timeRemaining c" if "isActive c"
    using that by (simp add: timer_invariant_def)
next
  fix c evs assume "reachable P c" and ns: "StartClicked \<notin> set evs"
  then have inv: "timer_invariant c" by (simp add: reachable_timer_invariant)
  from this ns have "ticks_fired P evs c \<le> ticks_left c" by (rule ticks_fired_le_ticks_left)
  also from inv have "\<dots> \<le> 60" by (rule ticks_left_le)
  finally show "ticks_fired P evs c \<le> 60" .
next
  fix b and c :: component
  assume "isActive c" "timeRemaining c = CONVERSATION_DURATION"
  then have "timeRemaining c = int (Suc 59)" by (simp add: CONVERSATION_DURATION_def)
  with \<open>isActive c\<close> have "\<exists>c'. run P (replicate (Suc 59) (Tick b)) c = Inr c' \<and> \<not> isActive c'"
    by (rule run_ticks_ends)
  then show "\<exists>c'. run P (replicate 60 (Tick b)) c = Inr c' \<and> \<not> isActive c'"
    by simp
qed

theorem session_lasts_sixty_ticks_witness:
  "reachable demo_platform initial \<and>
   0 \<le> timeRemaining initial \<and> timeRemaining initial \<le> 60 \<and>
   StartClicked \<notin> set [Tick True, Message ''hello'', Tick False] \<and>
   ticks_fired demo_platform [Tick True, Message ''hello'', Tick False] initial \<le> 60 \<and>
   isActive (initial\<lparr>isActive := True, timeRemaining := 42\<rparr>) \<and>
   1 < timeRemaining (initial\<lparr>isActive := True, timeRemaining := 42\<rparr>) \<and>
   step demo_platform (Tick True) (initial\<lparr>isActive := True, timeRemaining := 42\<rparr>) =
     Inr (initial\<lparr>isActive := True, timeRemaining := 41\<rparr>) \<and>
   (\<exists>c'. step demo_platform (Tick True) (initial\<lparr>isActive := True, timeRemaining := 1\<rparr>) =
           Inr c' \<and> \<not> isActive c' \<and> aiState c' = idle) \<and>
   (\<exists>c'. run demo_platform (replicate 60 (Tick False)) (initial\<lparr>isActive := True\<rparr>) = Inr c' \<and>
         \<not> isActive c')"
proof -
  note inst = session_lasts_sixty_ticks [of demo_platform]
  have r: "reachable demo_platform initial" by (rule reachable_initial)
  have n: "StartClicked \<notin> set [Tick True, Message ''hello'', Tick False]" by simp
  have a: "isActive (initial\<lparr>isActive := True, timeRemaining := 42\<rparr>)"
    "1 < timeRemaining (initial\<lparr>isActive := True, timeRemaining := 42\<rparr>)"
    "isActive (initial\<lparr>isActive := True, timeRemaining := 1\<rparr>)"
    "0 < timeRemaining (initial\<lparr>isActive := True, timeRemaining := 1\<rparr>)"
    "timeRemaining (initial\<lparr>isActive := True, timeRemaining := 1\<rparr>) \<le> 1"
    "isActive (initial\<lparr>isActive := True\<rparr>)"
    "timeRemaining (initial\<lparr>isActive := True\<rparr>) = CONVERSATION_DURATION"
    by (simp_all add: initial_def)
  from inst r have b: "0 \<le> timeRemaining initial \<and> timeRemaining initial \<le> 60" by blast
  from inst r n
  have t: "ticks_fired demo_platform [Tick True, Message ''hello'', Tick False] initial \<le> 60"
    by blast
  from inst a(1,2)
  have "step demo_platform (Tick True) (initial\<lparr>isActive := True, timeRemaining := 42\<rparr>) =
     Inr (initial\<lparr>isActive := True, timeRemaining := 42\<rparr>
            \<lparr>timeRemaining := timeRemaining (initial\<lparr>isActive := True, timeRemaining := 42\<rparr>) - 1\<rparr>)"
    by blast
  then have d: "step demo_platform (Tick True) (initial\<lparr>isActive := True, timeRemaining := 42\<rparr>) =
     Inr (initial\<lparr>isActive := True, timeRemaining := 41\<rparr>)"
    by simp
  from inst a(3,4,5)
  have e: "\<exists>c'. step demo_platform (Tick True) (initial\<lparr>isActive := True, timeRemaining := 1\<rparr>) =
           Inr c' \<and> \<not> isActive c' \<and> aiState c' = idle"
    by blast
  from inst a(6,7)
  have f: "\<exists>c'. run demo_platform (replicate 60 (Tick False)) (initial\<lparr>isActive := True\<rparr>) =
           Inr c' \<and> \<not> isActive c'"
    by blast
  from r n a(1,2) b t d e f show ?thesis by blast
qed

end
